theory Spec2Isabelle
  imports Main
begin

section \<open>Entity model (models/models.py)\<close>

text \<open>
  The three dataclasses of the booking system. A UUID is an opaque identifier (a natural
  number here; every 128-bit value is one). A \<open>datetime\<close> is naive, as everywhere in
  the repository, and is the count of microseconds since \<open>datetime.min\<close>, the start of
  year 1: the values that occur lie between 0 and \<open>datetime_max\<close>, the last
  microsecond of year 9999. A string is a list of characters. A booking's \<open>id\<close> is
  optional: the code tests it for \<open>None\<close> in \<open>update_booking\<close> and in the driver's
  \<open>update\<close>. The status and the location are plain strings, as the code never
  restricts them.
\<close>

type_synonym uuid = nat
type_synonym datetime = int

definition timedelta_minutes :: "int \<Rightarrow> int" where
  "timedelta_minutes m = m * 60000000"

definition datetime_max :: datetime where
  "datetime_max = 315537897599999999"

text \<open>
  \<open>t + timedelta(minutes=m)\<close> raises OverflowError when the \<open>timedelta\<close> cannot be
  built (its days exceed 999999999 in magnitude) or the sum is no \<open>datetime\<close>.
\<close>

definition plus_minutes_defined :: "datetime \<Rightarrow> int \<Rightarrow> bool" where
  "plus_minutes_defined t m =
     (- 999999999 \<le> m div 1440 \<and> m div 1440 \<le> 999999999
      \<and> 0 \<le> t + timedelta_minutes m \<and> t + timedelta_minutes m \<le> datetime_max)"

record user =
  u_name :: string
  u_phone :: string
  u_email :: string
  u_id :: uuid
  u_created_at :: datetime

record rtable =
  t_number :: int
  t_capacity :: int
  t_location :: string
  t_id :: uuid
  t_is_available :: bool

record booking =
  b_user_id :: uuid
  b_table_id :: uuid
  b_booking_date :: datetime
  b_guest_count :: int
  b_id :: "uuid option"
  b_duration_minutes :: int
  b_status :: string
  b_special_requests :: string
  b_created_at :: datetime
  b_updated_at :: datetime

section \<open>The store and the persistence driver (postgres_driver.py)\<close>

text \<open>
  The store holds the rows of the three tables \<open>user\<close>, \<open>restaurant_table\<close> and
  \<open>booking\<close> in storage order, and a journal of the SQL statements the driver has sent,
  oldest first. The tables are those \<open>create_table_from_entity\<close> derives from the
  dataclasses: \<open>id\<close> is the primary key, every \<open>str\<close> column is VARCHAR(255) and
  every \<open>int\<close> column is INTEGER. So the server refuses a row whose id is absent or
  already stored, an integer outside 32 bits, and a text of more than 255 characters,
  unless the characters beyond the limit are all spaces: then it stores the first 255.
  A text with a NUL character never reaches the server: the client library raises when
  it adapts the parameters of a statement, before the statement is sent.
  The driver's \<open>read\<close>, \<open>create\<close> and \<open>update\<close> reflect over the dataclass they
  are given; here each is written once for the table it is called on (\<open>read_user\<close>,
  \<open>create_booking_row\<close>, \<open>update_booking_row\<close>, ...), over the shared \<open>read_rows\<close>.
\<close>

datatype statement = SELECT string | INSERT string | UPDATE string | DELETE string

record db =
  user_rows :: "user list"
  table_rows :: "rtable list"
  booking_rows :: "booking list"
  journal :: "statement list"

datatype reason = TableNotFound | TableUnavailable | AlreadyBooked booking

datatype error =
    UserExists string
  | CannotCreateBooking "reason option"
  | CannotUpdateBooking "reason option"
  | EntityWithoutId
  | ReadFailed
  | CreateFailed
  | UpdateFailed
  | OverflowError

definition add_minutes :: "datetime \<Rightarrow> int \<Rightarrow> error + datetime" where
  "add_minutes t m =
     (if plus_minutes_defined t m then Inr (t + timedelta_minutes m) else Inl OverflowError)"

definition int32 :: "int \<Rightarrow> bool" where
  "int32 n = (- 2147483648 \<le> n \<and> n \<le> 2147483647)"

definition has_nul :: "string \<Rightarrow> bool" where
  "has_nul s = (CHR 0x00 \<in> set s)"

definition varchar_refused :: "string \<Rightarrow> bool" where
  "varchar_refused s = (255 < length s \<and> \<not> list_all (\<lambda>c. c = CHR '' '') (drop 255 s))"

definition varchar_stored :: "string \<Rightarrow> string" where
  "varchar_stored s = take 255 s"

definition issue :: "statement \<Rightarrow> db \<Rightarrow> db" where
  "issue s d = d\<lparr>journal := journal d @ [s]\<rparr>"

definition col_eq :: "('e \<Rightarrow> 'v) \<Rightarrow> 'v \<Rightarrow> 'e \<Rightarrow> bool" where
  "col_eq col v row = (col row = v)"

text \<open>
  \<open>PostgresDriver.read\<close>: the WHERE clause is the conjunction of the equality filters,
  ORDER BY sorts by one column, and LIMIT is added only when \<open>limit\<close> is truthy
  (neither \<open>None\<close> nor 0). Rows with equal sort keys, which the server may return in
  any order, stay in storage order here.
\<close>

definition read_rows ::
  "('e \<Rightarrow> bool) list \<Rightarrow> nat option \<Rightarrow> ('e \<Rightarrow> int) option \<Rightarrow> 'e list \<Rightarrow> 'e list" where
  "read_rows filters limit order_by rows =
     (let selected = filter (\<lambda>row. list_all (\<lambda>p. p row) filters) rows;
          ordered = (case order_by of None \<Rightarrow> selected | Some k \<Rightarrow> sort_key k selected)
      in case limit of
           None \<Rightarrow> ordered
         | Some n \<Rightarrow> if n = 0 then ordered else take n ordered)"

definition read_user ::
  "(user \<Rightarrow> bool) list \<Rightarrow> nat option \<Rightarrow> (user \<Rightarrow> int) option \<Rightarrow> db \<Rightarrow> user list \<times> db" where
  "read_user filters limit order_by d =
     (read_rows filters limit order_by (user_rows d), issue (SELECT ''user'') d)"

definition read_table ::
  "(rtable \<Rightarrow> bool) list \<Rightarrow> nat option \<Rightarrow> (rtable \<Rightarrow> int) option \<Rightarrow> db \<Rightarrow> rtable list \<times> db" where
  "read_table filters limit order_by d =
     (read_rows filters limit order_by (table_rows d), issue (SELECT ''restaurant_table'') d)"

definition read_booking ::
  "(booking \<Rightarrow> bool) list \<Rightarrow> nat option \<Rightarrow> (booking \<Rightarrow> int) option \<Rightarrow> db
     \<Rightarrow> booking list \<times> db" where
  "read_booking filters limit order_by d =
     (read_rows filters limit order_by (booking_rows d), issue (SELECT ''booking'') d)"

text \<open>\<open>results[0] if results else None\<close>\<close>

definition first_or_none :: "'a list \<Rightarrow> 'a option" where
  "first_or_none results = (case results of [] \<Rightarrow> None | x # _ \<Rightarrow> Some x)"

definition read_by_id_table :: "uuid \<Rightarrow> db \<Rightarrow> rtable option \<times> db" where
  "read_by_id_table entity_id d =
     (case read_table [col_eq t_id entity_id] (Some 1) None d of
        (results, d') \<Rightarrow> (first_or_none results, d'))"

definition read_by_id_booking :: "uuid \<Rightarrow> db \<Rightarrow> booking option \<times> db" where
  "read_by_id_booking entity_id d =
     (case read_booking [col_eq b_id (Some entity_id)] (Some 1) None d of
        (results, d') \<Rightarrow> (first_or_none results, d'))"

text \<open>
  \<open>PostgresDriver.create\<close>: one INSERT of all fields. When a text has a NUL
  character nothing is sent; when the server refuses the statement, the driver rolls
  back; in both cases it raises its generic exception. Otherwise the entity is returned
  with the values of the stored row (\<open>RETURNING *\<close>).
\<close>

definition create_user_row :: "user \<Rightarrow> db \<Rightarrow> (error + user) \<times> db" where
  "create_user_row entity d =
     (if has_nul (u_name entity) \<or> has_nul (u_phone entity) \<or> has_nul (u_email entity)
      then (Inl CreateFailed, d)
      else
        let d' = issue (INSERT ''user'') d;
            stored = entity\<lparr>u_name := varchar_stored (u_name entity),
                             u_phone := varchar_stored (u_phone entity),
                             u_email := varchar_stored (u_email entity)\<rparr>
        in if varchar_refused (u_name entity) \<or> varchar_refused (u_phone entity)
              \<or> varchar_refused (u_email entity)
              \<or> u_id entity \<in> set (map u_id (user_rows d))
           then (Inl CreateFailed, d')
           else (Inr stored, d'\<lparr>user_rows := user_rows d @ [stored]\<rparr>))"

definition booking_fields :: "string list" where
  "booking_fields =
     [''user_id'', ''table_id'', ''booking_date'', ''guest_count'', ''id'',
      ''duration_minutes'', ''status'', ''special_requests'', ''created_at'', ''updated_at'']"

text \<open>
  Whether the client library refuses to send the entity's value for a column of
  \<open>booking\<close>, whether the server refuses it, and the entity as the server stores
  its values.
\<close>

definition nul_value :: "string \<Rightarrow> booking \<Rightarrow> bool" where
  "nul_value field_name entity =
     (if field_name = ''status'' then has_nul (b_status entity)
      else if field_name = ''special_requests'' then has_nul (b_special_requests entity)
      else False)"

definition column_refused :: "string \<Rightarrow> booking \<Rightarrow> bool" where
  "column_refused field_name entity =
     (if field_name = ''guest_count'' then \<not> int32 (b_guest_count entity)
      else if field_name = ''duration_minutes'' then \<not> int32 (b_duration_minutes entity)
      else if field_name = ''status'' then varchar_refused (b_status entity)
      else if field_name = ''special_requests'' then varchar_refused (b_special_requests entity)
      else False)"

definition stored_values :: "booking \<Rightarrow> booking" where
  "stored_values entity =
     entity\<lparr>b_status := varchar_stored (b_status entity),
            b_special_requests := varchar_stored (b_special_requests entity)\<rparr>"

definition create_booking_row :: "booking \<Rightarrow> db \<Rightarrow> (error + booking) \<times> db" where
  "create_booking_row entity d =
     (if list_ex (\<lambda>f. nul_value f entity) booking_fields then (Inl CreateFailed, d)
      else
        let d' = issue (INSERT ''booking'') d;
            stored = stored_values entity
        in if b_id entity = None \<or> b_id entity \<in> set (map b_id (booking_rows d))
              \<or> list_ex (\<lambda>f. column_refused f entity) booking_fields
           then (Inl CreateFailed, d')
           else (Inr stored, d'\<lparr>booking_rows := booking_rows d @ [stored]\<rparr>))"

text \<open>
  \<open>PostgresDriver.update\<close> for a booking. Without an id it raises before anything is
  sent. \<open>getattr\<close> on a name that is no field raises before the statement is sent,
  and so does a text with a NUL character among the values to assign. The
  server refuses an empty SET list, a column assigned twice and a value the column cannot
  hold. When no row has the id, \<open>fetchone()\<close> is \<open>None\<close> and \<open>dict(None)\<close>
  raises: every failure inside the \<open>try\<close> block ends as the driver's generic
  exception. The updated row keeps its place in the table here.
\<close>

definition set_column :: "string \<Rightarrow> booking \<Rightarrow> booking \<Rightarrow> booking" where
  "set_column field_name entity row =
     (if field_name = ''user_id'' then row\<lparr>b_user_id := b_user_id entity\<rparr>
      else if field_name = ''table_id'' then row\<lparr>b_table_id := b_table_id entity\<rparr>
      else if field_name = ''booking_date'' then row\<lparr>b_booking_date := b_booking_date entity\<rparr>
      else if field_name = ''guest_count'' then row\<lparr>b_guest_count := b_guest_count entity\<rparr>
      else if field_name = ''id'' then row\<lparr>b_id := b_id entity\<rparr>
      else if field_name = ''duration_minutes''
        then row\<lparr>b_duration_minutes := b_duration_minutes entity\<rparr>
      else if field_name = ''status'' then row\<lparr>b_status := b_status entity\<rparr>
      else if field_name = ''special_requests''
        then row\<lparr>b_special_requests := b_special_requests entity\<rparr>
      else if field_name = ''created_at'' then row\<lparr>b_created_at := b_created_at entity\<rparr>
      else if field_name = ''updated_at'' then row\<lparr>b_updated_at := b_updated_at entity\<rparr>
      else row)"

definition set_columns :: "string list \<Rightarrow> booking \<Rightarrow> booking \<Rightarrow> booking" where
  "set_columns update_fields entity row =
     fold (\<lambda>field_name r. set_column field_name entity r) update_fields row"

definition update_booking_row ::
  "booking \<Rightarrow> string list option \<Rightarrow> db \<Rightarrow> (error + booking) \<times> db" where
  "update_booking_row entity update_fields d =
     (case b_id entity of
        None \<Rightarrow> (Inl EntityWithoutId, d)
      | Some entity_id \<Rightarrow>
          let fs = (case update_fields of
                      None \<Rightarrow> filter (\<lambda>f. f \<noteq> ''id'' \<and> f \<noteq> ''created_at'') booking_fields
                    | Some l \<Rightarrow> l)
          in if \<not> list_all (\<lambda>f. f \<in> set booking_fields) fs
                \<or> list_ex (\<lambda>f. nul_value f entity) fs
             then (Inl UpdateFailed, d)
             else
               let d' = issue (UPDATE ''booking'') d;
                   rows' = map (\<lambda>row. if b_id row = Some entity_id
                                       then set_columns fs (stored_values entity) row else row)
                               (booking_rows d)
               in if fs = [] \<or> \<not> distinct fs \<or> list_ex (\<lambda>f. column_refused f entity) fs
                  then (Inl UpdateFailed, d')
                  else case filter (\<lambda>row. b_id row = Some entity_id) rows' of
                         [] \<Rightarrow> (Inl UpdateFailed, d')
                       | result # _ \<Rightarrow> (Inr result, d'\<lparr>booking_rows := rows'\<rparr>))"

section \<open>The reservation service (backend.py)\<close>

text \<open>
  The name is a parameter of the SELECT: when it has a NUL character the driver's
  \<open>read\<close> raises its generic exception and nothing is sent.
\<close>

definition get_user_by_name :: "string \<Rightarrow> db \<Rightarrow> (error + user option) \<times> db" where
  "get_user_by_name name d =
     (if has_nul name then (Inl ReadFailed, d)
      else case read_user [col_eq u_name name] (Some 1) None d of
             (users, d') \<Rightarrow> (Inr (first_or_none users), d'))"

definition create_user ::
  "string \<Rightarrow> string \<Rightarrow> string \<Rightarrow> uuid \<Rightarrow> datetime \<Rightarrow> db \<Rightarrow> (error + user) \<times> db" where
  "create_user name phone email new_id now d =
     (case get_user_by_name name d of
        (Inl err, d1) \<Rightarrow> (Inl err, d1)
      | (Inr (Some existing_user), d1) \<Rightarrow> (Inl (UserExists name), d1)
      | (Inr None, d1) \<Rightarrow>
          create_user_row
            \<lparr>u_name = name, u_phone = phone, u_email = email, u_id = new_id, u_created_at = now\<rparr>
            d1)"

definition get_table_by_id :: "uuid \<Rightarrow> db \<Rightarrow> rtable option \<times> db" where
  "get_table_by_id table_id d = read_by_id_table table_id d"

definition get_booking_by_id :: "uuid \<Rightarrow> db \<Rightarrow> booking option \<times> db" where
  "get_booking_by_id booking_id d = read_by_id_booking booking_id d"

definition get_all_bookings ::
  "(booking \<Rightarrow> bool) list \<Rightarrow> (booking \<Rightarrow> int) option \<Rightarrow> db \<Rightarrow> booking list \<times> db" where
  "get_all_bookings filters order_by d = read_booking filters None order_by d"

definition get_bookings_by_table :: "uuid \<Rightarrow> db \<Rightarrow> booking list \<times> db" where
  "get_bookings_by_table table_id d =
     get_all_bookings [col_eq b_table_id table_id] (Some b_booking_date) d"

text \<open>
  The interval test of lines 547 to 555 for one stored booking; computing the end of the
  stored booking can raise.
\<close>

definition intervals_overlap :: "datetime \<Rightarrow> datetime \<Rightarrow> booking \<Rightarrow> error + bool" where
  "intervals_overlap booking_date booking_end existing_booking =
     (let existing_start = b_booking_date existing_booking
      in case add_minutes (b_booking_date existing_booking)
                (b_duration_minutes existing_booking) of
           Inl err \<Rightarrow> Inl err
         | Inr existing_end \<Rightarrow>
             Inr (booking_date < existing_end \<and> existing_start < booking_end))"

text \<open>
  The \<open>for\<close> loop over the active bookings: the first conflict ends it, and so does
  the first end that cannot be computed.
\<close>

fun scan_conflicts ::
  "datetime \<Rightarrow> datetime \<Rightarrow> booking list \<Rightarrow> error + bool \<times> reason option" where
  "scan_conflicts booking_date booking_end [] = Inr (True, None)"
| "scan_conflicts booking_date booking_end (existing_booking # rest) =
     (case intervals_overlap booking_date booking_end existing_booking of
        Inl err \<Rightarrow> Inl err
      | Inr conflict \<Rightarrow>
          if conflict then Inr (False, Some (AlreadyBooked existing_booking))
          else scan_conflicts booking_date booking_end rest)"

definition is_active :: "uuid option \<Rightarrow> booking \<Rightarrow> bool" where
  "is_active exclude_booking_id b =
     ((b_status b = ''pending'' \<or> b_status b = ''confirmed'') \<and> b_id b \<noteq> exclude_booking_id)"

definition check_table_availability ::
  "uuid \<Rightarrow> datetime \<Rightarrow> int \<Rightarrow> uuid option \<Rightarrow> db
     \<Rightarrow> (error + bool \<times> reason option) \<times> db" where
  "check_table_availability table_id booking_date duration_minutes exclude_booking_id d =
     (case get_table_by_id table_id d of
        (None, d1) \<Rightarrow> (Inr (False, Some TableNotFound), d1)
      | (Some t, d1) \<Rightarrow>
          if \<not> t_is_available t then (Inr (False, Some TableUnavailable), d1)
          else
            (case add_minutes booking_date duration_minutes of
               Inl err \<Rightarrow> (Inl err, d1)
             | Inr booking_end \<Rightarrow>
                 (case get_bookings_by_table table_id d1 of
                    (all_bookings, d2) \<Rightarrow>
                      let active_bookings = filter (is_active exclude_booking_id) all_bookings
                      in (scan_conflicts booking_date booking_end active_bookings, d2))))"

definition create_booking ::
  "uuid \<Rightarrow> uuid \<Rightarrow> datetime \<Rightarrow> int \<Rightarrow> int \<Rightarrow> string \<Rightarrow> string \<Rightarrow> bool
     \<Rightarrow> uuid \<Rightarrow> datetime \<Rightarrow> datetime \<Rightarrow> db \<Rightarrow> (error + booking) \<times> db" where
  "create_booking user_id table_id booking_date guest_count duration_minutes status
       special_requests check_availability new_id created updated d =
     (let entity = \<lparr>b_user_id = user_id, b_table_id = table_id, b_booking_date = booking_date,
                     b_guest_count = guest_count, b_id = Some new_id,
                     b_duration_minutes = duration_minutes, b_status = status,
                     b_special_requests = special_requests, b_created_at = created,
                     b_updated_at = updated\<rparr>
      in if check_availability then
           (case check_table_availability table_id booking_date duration_minutes None d of
              (Inl err, d1) \<Rightarrow> (Inl err, d1)
            | (Inr (is_available, reason), d1) \<Rightarrow>
                if \<not> is_available then (Inl (CannotCreateBooking reason), d1)
                else create_booking_row entity d1)
         else create_booking_row entity d)"

text \<open>
  The first block of \<open>update_booking\<close> (lines 425 to 443), which either raises (the
  conflict, or what the check itself raised) or falls through: it yields the error to
  raise, if any, and the store after its reads.
\<close>

definition update_booking_check :: "booking \<Rightarrow> bool \<Rightarrow> db \<Rightarrow> error option \<times> db" where
  "update_booking_check entity check_availability d =
     (if check_availability \<and> b_id entity \<noteq> None then
        (case get_booking_by_id (the (b_id entity)) d of
           (None, d1) \<Rightarrow> (None, d1)
         | (Some existing_booking, d1) \<Rightarrow>
             let time_changed =
                   (b_booking_date existing_booking \<noteq> b_booking_date entity
                    \<or> b_duration_minutes existing_booking \<noteq> b_duration_minutes entity);
                 table_changed = (b_table_id existing_booking \<noteq> b_table_id entity)
             in if time_changed \<or> table_changed then
                  (case check_table_availability (b_table_id entity)
                          (b_booking_date entity) (b_duration_minutes entity)
                          (b_id entity) d1 of
                     (Inl err, d2) \<Rightarrow> (Some err, d2)
                   | (Inr (is_available, reason), d2) \<Rightarrow>
                       if \<not> is_available then (Some (CannotUpdateBooking reason), d2)
                       else (None, d2))
                else (None, d1))
      else (None, d))"

definition with_updated_at :: "string list option \<Rightarrow> string list option" where
  "with_updated_at update_fields =
     (case update_fields of
        None \<Rightarrow> None
      | Some fs \<Rightarrow> if ''updated_at'' \<in> set fs then Some fs else Some (fs @ [''updated_at'']))"

definition update_booking ::
  "booking \<Rightarrow> string list option \<Rightarrow> bool \<Rightarrow> datetime \<Rightarrow> db \<Rightarrow> (error + booking) \<times> db" where
  "update_booking entity update_fields check_availability now d =
     (case update_booking_check entity check_availability d of
        (Some err, d1) \<Rightarrow> (Inl err, d1)
      | (None, d1) \<Rightarrow>
          update_booking_row (entity\<lparr>b_updated_at := now\<rparr>) (with_updated_at update_fields) d1)"

definition confirm_booking :: "uuid \<Rightarrow> datetime \<Rightarrow> db \<Rightarrow> (error + booking option) \<times> db" where
  "confirm_booking booking_id now d =
     (case get_booking_by_id booking_id d of
        (None, d1) \<Rightarrow> (Inr None, d1)
      | (Some found, d1) \<Rightarrow>
          (case update_booking (found\<lparr>b_status := ''confirmed''\<rparr>) (Some [''status''])
                  True now d1 of
             (Inl err, d2) \<Rightarrow> (Inl err, d2)
           | (Inr updated, d2) \<Rightarrow> (Inr (Some updated), d2)))"

definition cancel_booking :: "uuid \<Rightarrow> datetime \<Rightarrow> db \<Rightarrow> (error + booking option) \<times> db" where
  "cancel_booking booking_id now d =
     (case get_booking_by_id booking_id d of
        (None, d1) \<Rightarrow> (Inr None, d1)
      | (Some found, d1) \<Rightarrow>
          (case update_booking (found\<lparr>b_status := ''cancelled''\<rparr>) (Some [''status''])
                  True now d1 of
             (Inl err, d2) \<Rightarrow> (Inl err, d2)
           | (Inr updated, d2) \<Rightarrow> (Inr (Some updated), d2)))"

section \<open>Schema derivation (postgres_driver.py, create_table_from_entity)\<close>

text \<open>
  What \<open>dataclasses.fields\<close> reports of a field: its name, its type, and the two
  attributes \<open>default\<close> and \<open>default_factory\<close>. An attribute that was not supplied
  holds the sentinel \<open>MISSING\<close>, not \<open>None\<close>; a dataclass never supplies both.
  A type is a base type, or a subscripted one with its arguments (\<open>Optional[X]\<close> has
  the arguments \<open>X\<close> and \<open>NoneType\<close>; the arguments of \<open>Literal[...]\<close> are
  values, not types).
\<close>

datatype pytype =
    PyUUID | PyStr | PyInt | PyBool | PyDatetime | PyFloat | NoneType
  | LiteralValue
  | Subscripted "pytype list"
  | OtherType

datatype attr = MISSING | PyNone | Supplied

record dc_field =
  f_name :: string
  f_type :: pytype
  f_default :: attr
  f_default_factory :: attr

record entity_class =
  c_name :: string
  c_is_dataclass :: bool
  c_fields :: "dc_field list"

definition well_formed_field :: "dc_field \<Rightarrow> bool" where
  "well_formed_field field = (f_default field = MISSING \<or> f_default_factory field = MISSING)"

definition python_type_to_postgres :: "pytype \<Rightarrow> string" where
  "python_type_to_postgres field_type =
     (let field_type =
            (case field_type of
               Subscripted args \<Rightarrow>
                 if args \<noteq> [] \<and> NoneType \<notin> set args then hd args
                 else if args \<noteq> [] then
                   (case find (\<lambda>arg. arg \<noteq> NoneType) args of Some arg \<Rightarrow> arg | None \<Rightarrow> hd args)
                 else field_type
             | _ \<Rightarrow> field_type)
      in if field_type = PyUUID then ''UUID''
         else if field_type = PyStr then ''VARCHAR(255)''
         else if field_type = PyInt then ''INTEGER''
         else if field_type = PyBool then ''BOOLEAN''
         else if field_type = PyDatetime then ''TIMESTAMP''
         else if field_type = PyFloat then ''REAL''
         else ''VARCHAR(255)'')"

text \<open>One pass of the loop over the fields (lines 140 to 162): the column definition.\<close>

definition column_def :: "dc_field \<Rightarrow> string" where
  "column_def field =
     (let field_name = f_name field;
          pg_type = python_type_to_postgres (f_type field);
          is_primary_key = (field_name = ''id'');
          has_default = (f_default field \<noteq> PyNone \<or> f_default_factory field \<noteq> PyNone);
          column = field_name @ '' '' @ pg_type
      in if is_primary_key then column @ '' PRIMARY KEY''
         else if \<not> has_default then column @ '' NOT NULL''
         else column)"

definition lower :: "string \<Rightarrow> string" where
  "lower s = map (\<lambda>c. if 65 \<le> (of_char c :: nat) \<and> (of_char c :: nat) \<le> 90
                        then char_of ((of_char c :: nat) + 32) else c) s"

datatype ddl = DROP_TABLE_IF_EXISTS string | CREATE_TABLE_IF_NOT_EXISTS string "string list"

datatype schema_error = NotADataclass | CreateTableFailed

text \<open>
  The storage engine is outside the repository: \<open>server\<close> tells whether it executes a
  statement. The function sends the optional DROP and the CREATE, and raises when the
  class is no dataclass or the server refuses a statement; it has no other way to fail.
\<close>

definition create_table_from_entity ::
  "(ddl \<Rightarrow> bool) \<Rightarrow> entity_class \<Rightarrow> string option \<Rightarrow> bool \<Rightarrow> schema_error + bool" where
  "create_table_from_entity server entity_class table_name drop_if_exists =
     (if \<not> c_is_dataclass entity_class then Inl NotADataclass
      else
        let table_name = (case table_name of None \<Rightarrow> lower (c_name entity_class)
                                           | Some n \<Rightarrow> n)
        in if drop_if_exists \<and> \<not> server (DROP_TABLE_IF_EXISTS table_name)
           then Inl CreateTableFailed
           else
             let columns = map column_def (c_fields entity_class)
             in if server (CREATE_TABLE_IF_NOT_EXISTS table_name columns) then Inr True
                else Inl CreateTableFailed)"

section \<open>Auxiliary definitions for the statements\<close>

text \<open>
  The list the loop of \<open>check_table_availability\<close> runs over: the bookings of the table
  as \<open>get_bookings_by_table\<close> returns them, filtered as in lines 540 to 543.
\<close>

definition candidates :: "uuid \<Rightarrow> uuid option \<Rightarrow> db \<Rightarrow> booking list" where
  "candidates table_id exclude_booking_id d =
     filter (is_active exclude_booking_id)
       (sort_key b_booking_date (filter (\<lambda>b. b_table_id b = table_id) (booking_rows d)))"

text \<open>
  The strict test of line 555 on the numbers, and whether the end of a stored booking can
  be computed.
\<close>

definition overlap_test :: "datetime \<Rightarrow> datetime \<Rightarrow> booking \<Rightarrow> bool" where
  "overlap_test booking_date booking_end b =
     (booking_date < b_booking_date b + timedelta_minutes (b_duration_minutes b)
      \<and> b_booking_date b < booking_end)"

definition end_defined :: "booking \<Rightarrow> bool" where
  "end_defined b = plus_minutes_defined (b_booking_date b) (b_duration_minutes b)"

text \<open>
  A text that a VARCHAR(255) column holds as it is: at most 255 characters, none of them
  NUL. A booking whose values the columns of the table hold as they are: both integers
  within 32 bits, both texts fitting.
\<close>

definition text_fits :: "string \<Rightarrow> bool" where
  "text_fits s = (length s \<le> 255 \<and> \<not> has_nul s)"

definition fits_columns :: "booking \<Rightarrow> bool" where
  "fits_columns entity =
     (int32 (b_guest_count entity) \<and> int32 (b_duration_minutes entity)
      \<and> text_fits (b_status entity) \<and> text_fits (b_special_requests entity))"

text \<open>Example stores for the concrete instances below.\<close>

definition table_one :: rtable where
  "table_one = \<lparr>t_number = 1, t_capacity = 2, t_location = ''window'', t_id = 1,
                 t_is_available = True\<rparr>"

definition booking_a :: booking where
  "booking_a = \<lparr>b_user_id = 1, b_table_id = 1, b_booking_date = timedelta_minutes 1140,
                 b_guest_count = 2, b_id = Some 10, b_duration_minutes = 120,
                 b_status = ''confirmed'', b_special_requests = [], b_created_at = 0,
                 b_updated_at = 0\<rparr>"

definition evening_db :: db where
  "evening_db = \<lparr>user_rows = [], table_rows = [table_one], booking_rows = [booking_a],
                  journal = []\<rparr>"


definition closed_db :: db where
  "closed_db = \<lparr>user_rows = [], table_rows = [table_one\<lparr>t_is_available := False\<rparr>],
                 booking_rows = [booking_a], journal = []\<rparr>"

definition ann :: user where
  "ann = \<lparr>u_name = ''Ann'', u_phone = ''+7'', u_email = ''ann@example.com'', u_id = 1,
          u_created_at = 0\<rparr>"

definition ann_db :: db where
  "ann_db = \<lparr>user_rows = [ann], table_rows = [], booking_rows = [], journal = []\<rparr>"


text \<open>
  A sequence of \<open>create_user\<close> calls, each with the identifier and the time stamp its
  \<open>User(...)\<close> constructor draws. A caller that catches the exception of a refused call
  goes on with the store as that call left it.
\<close>

fun create_users :: "(string \<times> string \<times> string \<times> uuid \<times> datetime) list \<Rightarrow> db \<Rightarrow> db" where
  "create_users [] d = d"
| "create_users ((name, phone, email, new_id, now) # calls) d =
     create_users calls (snd (create_user name phone email new_id now d))"


definition cancelled_db :: db where
  "cancelled_db = \<lparr>user_rows = [], table_rows = [table_one],
                    booking_rows = [booking_a\<lparr>b_status := ''cancelled''\<rparr>], journal = []\<rparr>"


definition booking_c :: booking where
  "booking_c = \<lparr>b_user_id = 2, b_table_id = 1, b_booking_date = timedelta_minutes 1170,
                 b_guest_count = 2, b_id = Some 11, b_duration_minutes = 60,
                 b_status = ''confirmed'', b_special_requests = [], b_created_at = 0,
                 b_updated_at = 0\<rparr>"

definition double_db :: db where
  "double_db = \<lparr>user_rows = [], table_rows = [table_one],
                 booking_rows = [booking_a, booking_c], journal = []\<rparr>"

text \<open>
  The descriptor of the \<open>User\<close> dataclass of models/models.py, and of a dataclass with
  no field named \<open>id\<close>.
\<close>

definition user_class :: entity_class where
  "user_class =
     \<lparr>c_name = ''User'', c_is_dataclass = True,
      c_fields =
        [\<lparr>f_name = ''name'', f_type = PyStr, f_default = MISSING, f_default_factory = MISSING\<rparr>,
         \<lparr>f_name = ''phone'', f_type = PyStr, f_default = MISSING, f_default_factory = MISSING\<rparr>,
         \<lparr>f_name = ''email'', f_type = PyStr, f_default = MISSING, f_default_factory = MISSING\<rparr>,
         \<lparr>f_name = ''id'', f_type = PyUUID, f_default = MISSING, f_default_factory = Supplied\<rparr>,
         \<lparr>f_name = ''created_at'', f_type = PyDatetime, f_default = MISSING,
           f_default_factory = Supplied\<rparr>]\<rparr>"

definition note_class :: entity_class where
  "note_class =
     \<lparr>c_name = ''Note'', c_is_dataclass = True,
      c_fields =
        [\<lparr>f_name = ''title'', f_type = PyStr, f_default = MISSING, f_default_factory = MISSING\<rparr>,
         \<lparr>f_name = ''body'', f_type = PyStr, f_default = Supplied, f_default_factory = MISSING\<rparr>]\<rparr>"

text \<open>A booking of table 1 in the last hour of year 9999, for two hours.\<close>

definition booking_z :: booking where
  "booking_z = \<lparr>b_user_id = 1, b_table_id = 1,
                 b_booking_date = datetime_max - timedelta_minutes 60,
                 b_guest_count = 2, b_id = Some 20, b_duration_minutes = 120,
                 b_status = ''confirmed'', b_special_requests = [], b_created_at = 0,
                 b_updated_at = 0\<rparr>"

definition late_db :: db where
  "late_db = \<lparr>user_rows = [], table_rows = [table_one], booking_rows = [booking_z],
               journal = []\<rparr>"

section \<open>Facts about the driver and the availability check\<close>

lemma first_or_none_read_rows:
  "first_or_none (read_rows [col_eq f v] (Some (Suc 0)) None rows) = find (\<lambda>r. f r = v) rows"
  by (induction rows) (simp_all add: read_rows_def first_or_none_def col_eq_def)

lemma get_table_by_id_find:
  "get_table_by_id table_id d =
     (find (\<lambda>t. t_id t = table_id) (table_rows d), issue (SELECT ''restaurant_table'') d)"
  by (simp add: get_table_by_id_def read_by_id_table_def read_table_def first_or_none_read_rows)

lemma get_booking_by_id_find:
  "get_booking_by_id booking_id d =
     (find (\<lambda>b. b_id b = Some booking_id) (booking_rows d), issue (SELECT ''booking'') d)"
  by (simp add: get_booking_by_id_def read_by_id_booking_def read_booking_def
      first_or_none_read_rows)

lemma get_user_by_name_find:
  "get_user_by_name name d =
     (if has_nul name then (Inl ReadFailed, d)
      else (Inr (find (\<lambda>u. u_name u = name) (user_rows d)), issue (SELECT ''user'') d))"
  by (simp add: get_user_by_name_def read_user_def first_or_none_read_rows)

lemma get_bookings_by_table_sorted:
  "get_bookings_by_table table_id d =
     (sort_key b_booking_date (filter (\<lambda>b. b_table_id b = table_id) (booking_rows d)),
      issue (SELECT ''booking'') d)"
  by (simp add: get_bookings_by_table_def get_all_bookings_def read_booking_def read_rows_def
      col_eq_def)

lemma issue_rows [simp]:
  "user_rows (issue s d) = user_rows d"
  "table_rows (issue s d) = table_rows d"
  "booking_rows (issue s d) = booking_rows d"
  "journal (issue s d) = journal d @ [s]"
  by (simp_all add: issue_def)

subsection \<open>Date arithmetic and the loop\<close>

lemma intervals_overlap_defined:
  "end_defined b \<Longrightarrow> intervals_overlap s e b = Inr (overlap_test s e b)"
  by (simp add: intervals_overlap_def add_minutes_def end_defined_def overlap_test_def)

lemma intervals_overlap_Inr:
  "intervals_overlap s e b = Inr c \<Longrightarrow> c = overlap_test s e b"
  by (auto simp: intervals_overlap_def add_minutes_def overlap_test_def split: if_splits)

lemma scan_conflicts_defined:
  "\<forall>b\<in>set bs. end_defined b \<Longrightarrow>
     \<exists>available reason. scan_conflicts s e bs = Inr (available, reason)
        \<and> (available \<longleftrightarrow> (\<forall>b\<in>set bs. \<not> overlap_test s e b))"
  by (induction bs) (auto simp: intervals_overlap_defined)

lemma scan_conflicts_free:
  "\<forall>b\<in>set bs. end_defined b \<and> \<not> overlap_test s e b \<Longrightarrow>
     scan_conflicts s e bs = Inr (True, None)"
  by (induction bs) (simp_all add: intervals_overlap_defined)

lemma scan_conflicts_accepts:
  "scan_conflicts s e bs = Inr (True, reason) \<Longrightarrow> \<forall>b\<in>set bs. \<not> overlap_test s e b"
  by (induction bs) (auto split: sum.splits if_splits dest: intervals_overlap_Inr)

lemma scan_conflicts_refuses:
  "scan_conflicts s e bs = Inr (False, reason) \<Longrightarrow>
     \<exists>b\<in>set bs. overlap_test s e b \<and> reason = Some (AlreadyBooked b)"
  by (induction bs) (auto split: sum.splits if_splits dest: intervals_overlap_Inr)

lemma set_candidates:
  "set (candidates table_id ex d) =
     {b \<in> set (booking_rows d). b_table_id b = table_id \<and> is_active ex b}"
  by (auto simp: candidates_def)

lemma check_table_availability_unfold:
  "check_table_availability table_id s dur ex d =
     (case find (\<lambda>t. t_id t = table_id) (table_rows d) of
        None \<Rightarrow> (Inr (False, Some TableNotFound), issue (SELECT ''restaurant_table'') d)
      | Some t \<Rightarrow>
          if \<not> t_is_available t
          then (Inr (False, Some TableUnavailable), issue (SELECT ''restaurant_table'') d)
          else if \<not> plus_minutes_defined s dur
          then (Inl OverflowError, issue (SELECT ''restaurant_table'') d)
          else (scan_conflicts s (s + timedelta_minutes dur) (candidates table_id ex d),
                issue (SELECT ''booking'') (issue (SELECT ''restaurant_table'') d)))"
  by (simp add: check_table_availability_def get_table_by_id_find get_bookings_by_table_sorted
      candidates_def add_minutes_def split: option.splits)

lemma check_table_availability_rows [simp]:
  "booking_rows (snd (check_table_availability table_id s dur ex d)) = booking_rows d"
  "table_rows (snd (check_table_availability table_id s dur ex d)) = table_rows d"
  "user_rows (snd (check_table_availability table_id s dur ex d)) = user_rows d"
  by (simp_all add: check_table_availability_unfold split: option.splits)

subsection \<open>Creating users\<close>

lemma varchar_short:
  "length s \<le> 255 \<Longrightarrow> \<not> varchar_refused s \<and> varchar_stored s = s"
  by (simp add: varchar_refused_def varchar_stored_def)

lemma text_fits_accepted:
  "text_fits s \<Longrightarrow> \<not> has_nul s \<and> \<not> varchar_refused s \<and> varchar_stored s = s"
  by (simp add: text_fits_def varchar_short)

lemma create_user_nul:
  "has_nul name \<Longrightarrow> create_user name phone email new_id now d = (Inl ReadFailed, d)"
  by (simp add: create_user_def get_user_by_name_find)

lemma create_user_duplicate:
  assumes "name \<in> set (map u_name (user_rows d))" and "\<not> has_nul name"
  shows "create_user name phone email new_id now d
           = (Inl (UserExists name), issue (SELECT ''user'') d)"
proof -
  from assms obtain u where "find (\<lambda>u. u_name u = name) (user_rows d) = Some u"
    by (cases "find (\<lambda>u. u_name u = name) (user_rows d)") (auto simp: find_None_iff)
  with assms(2) show ?thesis by (simp add: create_user_def get_user_by_name_find)
qed

lemma create_user_new:
  assumes "name \<notin> set (map u_name (user_rows d))" and "\<not> has_nul name"
  shows "create_user name phone email new_id now d
           = create_user_row \<lparr>u_name = name, u_phone = phone, u_email = email, u_id = new_id,
                               u_created_at = now\<rparr> (issue (SELECT ''user'') d)"
proof -
  from assms have "find (\<lambda>u. u_name u = name) (user_rows d) = None"
    by (auto simp: find_None_iff)
  with assms(2) show ?thesis by (simp add: create_user_def get_user_by_name_find)
qed

lemma create_user_stored:
  assumes "name \<notin> set (map u_name (user_rows d))"
      and "text_fits name" and "text_fits phone" and "text_fits email"
      and "new_id \<notin> set (map u_id (user_rows d))"
  shows "create_user name phone email new_id now d
           = (Inr \<lparr>u_name = name, u_phone = phone, u_email = email, u_id = new_id,
                   u_created_at = now\<rparr>,
              (issue (INSERT ''user'') (issue (SELECT ''user'') d))
                \<lparr>user_rows := user_rows d @
                   [\<lparr>u_name = name, u_phone = phone, u_email = email, u_id = new_id,
                     u_created_at = now\<rparr>]\<rparr>)"
  using assms
  by (simp add: create_user_new create_user_row_def Let_def text_fits_accepted)

lemma create_user_appends:
  assumes "length name \<le> 255"
  shows "\<exists>created.
      user_rows (snd (create_user name phone email new_id now d)) = user_rows d @ created
      \<and> distinct (map u_name created)
      \<and> set (map u_name created) \<inter> set (map u_name (user_rows d)) = {}"
proof (cases "has_nul name")
  case True
  then show ?thesis by (simp add: create_user_nul)
next
  case sendable: False
  show ?thesis
  proof (cases "name \<in> set (map u_name (user_rows d))")
    case True
    with sendable show ?thesis by (simp add: create_user_duplicate)
  next
    case False
    show ?thesis
    proof (cases "fst (create_user name phone email new_id now d)")
      case (Inl err)
      with False sendable
      have "user_rows (snd (create_user name phone email new_id now d)) = user_rows d"
        by (simp add: create_user_new create_user_row_def Let_def split: if_splits)
      then show ?thesis by simp
    next
      case (Inr stored)
      with False sendable
      have "user_rows (snd (create_user name phone email new_id now d))
              = user_rows d @ [stored]" and "u_name stored = varchar_stored name"
        by (auto simp: create_user_new create_user_row_def Let_def split: if_splits)
      with False assms show ?thesis by (simp add: varchar_short)
    qed
  qed
qed

lemma create_users_appends:
  assumes "list_all (\<lambda>call. length (fst call) \<le> 255) calls"
  shows "\<exists>created. user_rows (create_users calls d) = user_rows d @ created
      \<and> distinct (map u_name created)
      \<and> set (map u_name created) \<inter> set (map u_name (user_rows d)) = {}"
  using assms
proof (induction calls arbitrary: d)
  case Nil
  then show ?case by simp
next
  case (Cons c calls)
  obtain name phone email new_id now where c: "c = (name, phone, email, new_id, now)"
    by (cases c) auto
  from Cons.prems c have short: "length name \<le> 255"
    and rest_short: "list_all (\<lambda>call. length (fst call) \<le> 255) calls"
    by simp_all
  define d1 where "d1 = snd (create_user name phone email new_id now d)"
  from create_user_appends [OF short, of phone email new_id now d] obtain first
    where first: "user_rows d1 = user_rows d @ first" "distinct (map u_name first)"
      "set (map u_name first) \<inter> set (map u_name (user_rows d)) = {}"
    unfolding d1_def by blast
  from Cons.IH [OF rest_short, of d1] obtain rest
    where rest: "user_rows (create_users calls d1) = user_rows d1 @ rest"
      "distinct (map u_name rest)"
      "set (map u_name rest) \<inter> set (map u_name (user_rows d1)) = {}"
    by blast
  have "user_rows (create_users (c # calls) d) = user_rows d @ (first @ rest)"
    by (simp add: c d1_def [symmetric] rest(1) first(1))
  moreover have "distinct (map u_name (first @ rest))"
    using first(2) rest(2,3) by (auto simp: first(1))
  moreover have "set (map u_name (first @ rest)) \<inter> set (map u_name (user_rows d)) = {}"
    using first(3) rest(3) by (auto simp: first(1))
  ultimately show ?case by blast
qed

subsection \<open>The driver's update\<close>

lemma fits_columns_accepted:
  "fits_columns entity \<Longrightarrow> \<not> nul_value f entity \<and> \<not> column_refused f entity"
  by (simp add: fits_columns_def nul_value_def column_refused_def text_fits_accepted)

lemma fits_columns_stored:
  "fits_columns entity \<Longrightarrow> stored_values entity = entity"
  by (simp add: fits_columns_def stored_values_def text_fits_accepted)

lemma fits_columns_list:
  "fits_columns entity \<Longrightarrow>
     \<not> list_ex (\<lambda>f. nul_value f entity) fs \<and> \<not> list_ex (\<lambda>f. column_refused f entity) fs"
  by (simp add: list_ex_iff fits_columns_accepted)

lemma stored_values_id [simp]: "b_id (stored_values entity) = b_id entity"
  by (simp add: stored_values_def)

lemma set_column_id:
  "b_id entity = b_id row \<Longrightarrow> b_id (set_column f entity row) = b_id row"
  by (simp add: set_column_def)

lemma set_columns_id:
  "b_id entity = b_id row \<Longrightarrow> b_id (set_columns fs entity row) = b_id row"
  unfolding set_columns_def
  by (induction fs arbitrary: row) (simp_all add: set_column_id)

lemma filter_map_same_id:
  "filter (\<lambda>row. b_id row = Some i)
     (map (\<lambda>row. if b_id row = Some i then set_columns fs entity row else row) rows)
   = map (set_columns fs entity) (filter (\<lambda>row. b_id row = Some i) rows)"
  if "b_id entity = Some i"
  using that by (induction rows) (simp_all add: set_columns_id)

lemma find_Some_filter:
  "find P xs = Some x \<Longrightarrow> \<exists>rest. filter P xs = x # rest"
  by (induction xs) (auto split: if_splits)

lemma map_if_absent:
  "\<forall>x\<in>set xs. \<not> P x \<Longrightarrow> map (\<lambda>x. if P x then f x else x) xs = xs"
  by (induction xs) auto

lemma update_booking_row_stored:
  assumes "b_id entity = Some i"
      and "fs = (case update_fields of
                   None \<Rightarrow> filter (\<lambda>f. f \<noteq> ''id'' \<and> f \<noteq> ''created_at'') booking_fields
                 | Some l \<Rightarrow> l)"
      and "list_all (\<lambda>f. f \<in> set booking_fields) fs" and "fs \<noteq> []" and "distinct fs"
      and "\<not> list_ex (\<lambda>f. nul_value f entity) fs
           \<and> \<not> list_ex (\<lambda>f. column_refused f entity) fs"
      and "find (\<lambda>b. b_id b = Some i) (booking_rows d) = Some found"
  shows "update_booking_row entity update_fields d
           = (Inr (set_columns fs (stored_values entity) found),
              (issue (UPDATE ''booking'') d)\<lparr>booking_rows :=
                 map (\<lambda>row. if b_id row = Some i
                             then set_columns fs (stored_values entity) row else row)
                     (booking_rows d)\<rparr>)"
proof -
  from find_Some_filter [OF assms(7)] obtain rest where
    "filter (\<lambda>row. b_id row = Some i) (booking_rows d) = found # rest"
    by blast
  moreover have "b_id (stored_values entity) = Some i"
    by (simp add: assms(1))
  ultimately show ?thesis
    using assms(1,3-6)
    unfolding update_booking_row_def assms(2) [symmetric]
    by (simp add: Let_def filter_map_same_id)
qed




lemma update_booking_row_absent:
  assumes "b_id entity = Some i" and "\<forall>b\<in>set (booking_rows d). b_id b \<noteq> Some i"
  shows "fst (update_booking_row entity update_fields d) = Inl UpdateFailed
         \<and> booking_rows (snd (update_booking_row entity update_fields d)) = booking_rows d
         \<and> table_rows (snd (update_booking_row entity update_fields d)) = table_rows d
         \<and> user_rows (snd (update_booking_row entity update_fields d)) = user_rows d
         \<and> (journal (snd (update_booking_row entity update_fields d)) = journal d
            \<or> journal (snd (update_booking_row entity update_fields d))
               = journal d @ [UPDATE ''booking''])"
proof -
  from assms(2) have same:
    "map (\<lambda>row. if b_id row = Some i then set_columns fs e row else row) (booking_rows d)
       = booking_rows d" for fs e
    by (rule map_if_absent)
  from assms(2) have none: "filter (\<lambda>row. b_id row = Some i) (booking_rows d) = []"
    by (auto simp: filter_empty_conv)
  show ?thesis
    using assms(1) by (simp add: update_booking_row_def Let_def same none)
qed

subsection \<open>The service's update\<close>

lemma update_booking_check_unfold:
  "update_booking_check entity True d =
     (case b_id entity of
        None \<Rightarrow> (None, d)
      | Some i \<Rightarrow>
          (case find (\<lambda>b. b_id b = Some i) (booking_rows d) of
             None \<Rightarrow> (None, issue (SELECT ''booking'') d)
           | Some existing_booking \<Rightarrow>
               if b_booking_date existing_booking \<noteq> b_booking_date entity
                  \<or> b_duration_minutes existing_booking \<noteq> b_duration_minutes entity
                  \<or> b_table_id existing_booking \<noteq> b_table_id entity
               then (case check_table_availability (b_table_id entity) (b_booking_date entity)
                            (b_duration_minutes entity) (Some i) (issue (SELECT ''booking'') d) of
                       (Inl err, d2) \<Rightarrow> (Some err, d2)
                     | (Inr (is_available, reason), d2) \<Rightarrow>
                         if \<not> is_available then (Some (CannotUpdateBooking reason), d2)
                         else (None, d2))
               else (None, issue (SELECT ''booking'') d)))"
  by (auto simp: update_booking_check_def get_booking_by_id_find Let_def
      split: option.splits prod.splits sum.splits)

lemma find_id_Some:
  "find (\<lambda>b. b_id b = Some i) rows = Some found \<Longrightarrow> b_id found = Some i \<and> found \<in> set rows"
  by (auto simp: find_Some_iff)

lemma find_id_exists:
  "\<exists>b\<in>set rows. b_id b = Some i \<Longrightarrow> \<exists>found. find (\<lambda>b. b_id b = Some i) rows = Some found"
  by (cases "find (\<lambda>b. b_id b = Some i) rows") (auto simp: find_None_iff)

lemma update_booking_check_unchanged:
  assumes "b_id entity = Some i"
      and "find (\<lambda>b. b_id b = Some i) (booking_rows d) = Some existing"
      and "b_booking_date existing = b_booking_date entity"
      and "b_duration_minutes existing = b_duration_minutes entity"
      and "b_table_id existing = b_table_id entity"
  shows "update_booking_check entity True d = (None, issue (SELECT ''booking'') d)"
  apply (subst update_booking_check_unfold)
  apply (simp only: assms option.case if_False simp_thms)
  done

text \<open>
  What \<open>confirm_booking\<close> and \<open>cancel_booking\<close> do to a stored booking: the re-read
  inside \<open>update_booking\<close> finds the same row, nothing of time or table has changed, so
  no availability check runs, and the UPDATE writes \<open>status\<close> and \<open>updated_at\<close>.
\<close>

lemma status_update_stored:
  assumes "find (\<lambda>b. b_id b = Some i) (booking_rows d) = Some found"
      and "text_fits new_status"
  shows "update_booking (found\<lparr>b_status := new_status\<rparr>) (Some [''status'']) True now
           (issue (SELECT ''booking'') d)
         = (Inr (found\<lparr>b_status := new_status, b_updated_at := now\<rparr>),
            (issue (UPDATE ''booking'') (issue (SELECT ''booking'') (issue (SELECT ''booking'') d)))
              \<lparr>booking_rows :=
                 map (\<lambda>row. if b_id row = Some i
                             then row\<lparr>b_status := new_status, b_updated_at := now\<rparr> else row)
                     (booking_rows d)\<rparr>)"
proof -
  let ?e = "found\<lparr>b_status := new_status, b_updated_at := now\<rparr>"
  from find_id_Some [OF assms(1)] have id: "b_id found = Some i" by blast
  have check: "update_booking_check (found\<lparr>b_status := new_status\<rparr>) True
                 (issue (SELECT ''booking'') d)
               = (None, issue (SELECT ''booking'') (issue (SELECT ''booking'') d))"
    by (rule update_booking_check_unchanged [where i = i and existing = found])
       (simp_all add: id assms(1))
  have cols: "set_columns [''status'', ''updated_at''] (stored_values ?e) row
              = row\<lparr>b_status := new_status, b_updated_at := now\<rparr>" for row
    using assms(2)
    by (simp add: set_columns_def set_column_def stored_values_def text_fits_accepted)
  have accepted: "\<not> list_ex (\<lambda>f. nul_value f ?e) [''status'', ''updated_at'']
                  \<and> \<not> list_ex (\<lambda>f. column_refused f ?e) [''status'', ''updated_at'']"
    using assms(2) by (simp add: nul_value_def column_refused_def text_fits_accepted)
  have row: "update_booking_row ?e (Some [''status'', ''updated_at''])
               (issue (SELECT ''booking'') (issue (SELECT ''booking'') d))
             = (Inr (set_columns [''status'', ''updated_at''] (stored_values ?e) found),
                (issue (UPDATE ''booking'')
                   (issue (SELECT ''booking'') (issue (SELECT ''booking'') d)))
                  \<lparr>booking_rows :=
                     map (\<lambda>row. if b_id row = Some i
                                 then set_columns [''status'', ''updated_at'']
                                        (stored_values ?e) row
                                 else row)
                         (booking_rows (issue (SELECT ''booking'')
                                          (issue (SELECT ''booking'') d)))\<rparr>)"
    by (rule update_booking_row_stored [where i = i, OF _ _ _ _ _ accepted])
       (simp_all add: id assms(1) booking_fields_def)
  show ?thesis
    by (simp add: update_booking_def check with_updated_at_def row cols)
qed

lemma confirm_booking_stored:
  assumes "find (\<lambda>b. b_id b = Some i) (booking_rows d) = Some found"
  shows "confirm_booking i now d
         = (Inr (Some (found\<lparr>b_status := ''confirmed'', b_updated_at := now\<rparr>)),
            (issue (UPDATE ''booking'') (issue (SELECT ''booking'') (issue (SELECT ''booking'') d)))
              \<lparr>booking_rows :=
                 map (\<lambda>row. if b_id row = Some i
                             then row\<lparr>b_status := ''confirmed'', b_updated_at := now\<rparr> else row)
                     (booking_rows d)\<rparr>)"
  by (simp add: confirm_booking_def get_booking_by_id_find assms
      status_update_stored [OF assms] text_fits_def has_nul_def)

lemma cancel_booking_stored:
  assumes "find (\<lambda>b. b_id b = Some i) (booking_rows d) = Some found"
  shows "cancel_booking i now d
         = (Inr (Some (found\<lparr>b_status := ''cancelled'', b_updated_at := now\<rparr>)),
            (issue (UPDATE ''booking'') (issue (SELECT ''booking'') (issue (SELECT ''booking'') d)))
              \<lparr>booking_rows :=
                 map (\<lambda>row. if b_id row = Some i
                             then row\<lparr>b_status := ''cancelled'', b_updated_at := now\<rparr> else row)
                     (booking_rows d)\<rparr>)"
  by (simp add: cancel_booking_def get_booking_by_id_find assms
      status_update_stored [OF assms] text_fits_def has_nul_def)

subsection \<open>Availability on a bookable table\<close>

lemma find_table_available:
  assumes "\<exists>t\<in>set rows. t_id t = table_id"
      and "\<forall>t\<in>set rows. t_id t = table_id \<longrightarrow> t_is_available t"
  shows "\<exists>t. find (\<lambda>t. t_id t = table_id) rows = Some t \<and> t_is_available t"
  using assms
  by (cases "find (\<lambda>t. t_id t = table_id) rows") (auto simp: find_None_iff find_Some_iff)

lemma check_table_availability_free:
  assumes "find (\<lambda>t. t_id t = table_id) (table_rows d) = Some t" and "t_is_available t"
      and "plus_minutes_defined s dur"
      and "\<forall>b\<in>set (booking_rows d).
             b_table_id b = table_id \<and> is_active ex b
             \<longrightarrow> end_defined b \<and> \<not> overlap_test s (s + timedelta_minutes dur) b"
  shows "check_table_availability table_id s dur ex d
           = (Inr (True, None),
              issue (SELECT ''booking'') (issue (SELECT ''restaurant_table'') d))"
proof -
  from assms(4) have "scan_conflicts s (s + timedelta_minutes dur) (candidates table_id ex d)
                        = Inr (True, None)"
    by (intro scan_conflicts_free) (simp add: set_candidates)
  with assms(1-3) show ?thesis
    by (simp add: check_table_availability_unfold)
qed

lemma check_table_availability_answers:
  assumes "find (\<lambda>t. t_id t = table_id) (table_rows d) = Some t" and "t_is_available t"
      and "plus_minutes_defined s dur"
      and "\<forall>b\<in>set (booking_rows d). b_table_id b = table_id \<and> is_active ex b \<longrightarrow> end_defined b"
  shows "\<exists>available reason.
           check_table_availability table_id s dur ex d
             = (Inr (available, reason),
                issue (SELECT ''booking'') (issue (SELECT ''restaurant_table'') d))
           \<and> (available \<longleftrightarrow>
                (\<forall>b\<in>set (booking_rows d).
                   b_table_id b = table_id \<and> is_active ex b
                   \<longrightarrow> \<not> overlap_test s (s + timedelta_minutes dur) b))"
proof -
  from assms(4) have "\<forall>b\<in>set (candidates table_id ex d). end_defined b"
    by (simp add: set_candidates)
  from scan_conflicts_defined [OF this, of s "s + timedelta_minutes dur"]
  obtain available reason where
    "scan_conflicts s (s + timedelta_minutes dur) (candidates table_id ex d)
       = Inr (available, reason)"
    "available \<longleftrightarrow> (\<forall>b\<in>set (candidates table_id ex d).
                       \<not> overlap_test s (s + timedelta_minutes dur) b)"
    by blast
  with assms(1-3) show ?thesis
    by (auto simp: check_table_availability_unfold set_candidates)
qed

text \<open>Whenever the check answers, its answer is the strict test on the numbers.\<close>

lemma check_table_availability_accepts:
  assumes "fst (check_table_availability table_id s dur ex d) = Inr (True, reason)"
      and "b \<in> set (booking_rows d)" and "b_table_id b = table_id" and "is_active ex b"
  shows "\<not> overlap_test s (s + timedelta_minutes dur) b"
proof -
  from assms(1) have "scan_conflicts s (s + timedelta_minutes dur) (candidates table_id ex d)
                        = Inr (True, reason)"
    by (auto simp: check_table_availability_unfold split: option.splits if_splits)
  from scan_conflicts_accepts [OF this] assms(2-4) show ?thesis
    by (simp add: set_candidates)
qed

lemma check_table_availability_refuses:
  assumes "fst (check_table_availability table_id s dur ex d) = Inr (False, reason)"
      and "find (\<lambda>t. t_id t = table_id) (table_rows d) = Some t" and "t_is_available t"
  shows "\<exists>b\<in>set (booking_rows d). b_table_id b = table_id \<and> is_active ex b
           \<and> overlap_test s (s + timedelta_minutes dur) b"
proof -
  from assms have "scan_conflicts s (s + timedelta_minutes dur) (candidates table_id ex d)
                        = Inr (False, reason)"
    by (auto simp: check_table_availability_unfold split: if_splits)
  from scan_conflicts_refuses [OF this] show ?thesis
    by (auto simp: set_candidates)
qed

lemma create_booking_row_stored:
  assumes "Some new_id \<notin> set (map b_id (booking_rows d))" and "b_id entity = Some new_id"
      and "fits_columns entity"
  shows "create_booking_row entity d
           = (Inr entity, (issue (INSERT ''booking'') d)
                            \<lparr>booking_rows := booking_rows d @ [entity]\<rparr>)"
  using assms
  by (simp add: create_booking_row_def Let_def fits_columns_list fits_columns_stored)

lemma create_booking_checked:
  assumes "check_table_availability table_id s dur None d = (Inr (True, reason), d1)"
      and "Some new_id \<notin> set (map b_id (booking_rows d))"
      and "int32 guest_count" and "int32 dur"
      and "text_fits status" and "text_fits special_requests"
  shows "create_booking user_id table_id s guest_count dur status special_requests True
           new_id created updated d
         = (Inr \<lparr>b_user_id = user_id, b_table_id = table_id, b_booking_date = s,
                 b_guest_count = guest_count, b_id = Some new_id, b_duration_minutes = dur,
                 b_status = status, b_special_requests = special_requests,
                 b_created_at = created, b_updated_at = updated\<rparr>,
            (issue (INSERT ''booking'') d1)\<lparr>booking_rows := booking_rows d @
               [\<lparr>b_user_id = user_id, b_table_id = table_id, b_booking_date = s,
                 b_guest_count = guest_count, b_id = Some new_id, b_duration_minutes = dur,
                 b_status = status, b_special_requests = special_requests,
                 b_created_at = created, b_updated_at = updated\<rparr>]\<rparr>)"
proof -
  from assms(1) have rows: "booking_rows d1 = booking_rows d"
    using check_table_availability_rows(1) [of table_id s dur None d] by simp
  have "create_booking_row \<lparr>b_user_id = user_id, b_table_id = table_id, b_booking_date = s,
                 b_guest_count = guest_count, b_id = Some new_id, b_duration_minutes = dur,
                 b_status = status, b_special_requests = special_requests,
                 b_created_at = created, b_updated_at = updated\<rparr> d1
        = (Inr \<lparr>b_user_id = user_id, b_table_id = table_id, b_booking_date = s,
                 b_guest_count = guest_count, b_id = Some new_id, b_duration_minutes = dur,
                 b_status = status, b_special_requests = special_requests,
                 b_created_at = created, b_updated_at = updated\<rparr>,
            (issue (INSERT ''booking'') d1)\<lparr>booking_rows := booking_rows d1 @
               [\<lparr>b_user_id = user_id, b_table_id = table_id, b_booking_date = s,
                 b_guest_count = guest_count, b_id = Some new_id, b_duration_minutes = dur,
                 b_status = status, b_special_requests = special_requests,
                 b_created_at = created, b_updated_at = updated\<rparr>]\<rparr>)"
    using assms(2-6) by (intro create_booking_row_stored) (simp_all add: rows fits_columns_def)
  with assms(1) show ?thesis
    by (simp add: create_booking_def Let_def rows)
qed



subsection \<open>Schema derivation\<close>

text \<open>
  The test for a default compares both attributes with \<open>None\<close>, while an attribute that
  was not supplied holds \<open>MISSING\<close>: for every field a dataclass can have, the test
  succeeds and the NOT NULL branch is never taken.
\<close>

lemma column_def_never_not_null:
  assumes "well_formed_field field"
  shows "column_def field
           = f_name field @ '' '' @ python_type_to_postgres (f_type field)
             @ (if f_name field = ''id'' then '' PRIMARY KEY'' else [])"
  using assms by (auto simp: column_def_def well_formed_field_def Let_def)

subsection \<open>Texts beyond the column limit\<close>

text \<open>
  A name of 255 characters followed by one space is not found by the lookup, is accepted
  by the INSERT and is stored without the space: the store then holds the same name
  twice.
\<close>

lemma clipped_name_stored_twice:
  "map u_name (user_rows (create_users
      [(replicate 255 CHR ''a'', ''+1'', ''a@example.com'', 1, 5),
       (replicate 255 CHR ''a'' @ '' '', ''+2'', ''b@example.com'', 2, 6)]
      \<lparr>user_rows = [], table_rows = [], booking_rows = [], journal = []\<rparr>))
   = [replicate 255 CHR ''a'', replicate 255 CHR ''a'']"
proof -
  have stored: "varchar_stored (replicate 255 CHR ''a'' @ '' '') = replicate 255 CHR ''a''"
    "varchar_stored (replicate 255 CHR ''a'') = replicate 255 CHR ''a''"
    by (simp_all add: varchar_stored_def)
  have accepted: "\<not> varchar_refused (replicate 255 CHR ''a'' @ '' '')"
    "\<not> varchar_refused (replicate 255 CHR ''a'')"
    by (simp_all add: varchar_refused_def)
  have sendable: "\<not> has_nul (replicate 255 CHR ''a'' @ '' '')"
    "\<not> has_nul (replicate 255 CHR ''a'')"
    by (simp_all add: has_nul_def)
  have short: "\<not> varchar_refused ''+1''" "\<not> varchar_refused ''+2''"
    "\<not> varchar_refused ''a@example.com''" "\<not> varchar_refused ''b@example.com''"
    "\<not> has_nul ''+1''" "\<not> has_nul ''+2''"
    "\<not> has_nul ''a@example.com''" "\<not> has_nul ''b@example.com''"
    by (simp_all add: varchar_refused_def has_nul_def)
  show ?thesis
    by (simp add: create_user_def get_user_by_name_find create_user_row_def Let_def
        stored accepted sendable short)
qed

subsection \<open>What the availability check can raise\<close>

lemma intervals_overlap_error:
  "intervals_overlap s e b = Inl err \<Longrightarrow> err = OverflowError"
  by (auto simp: intervals_overlap_def add_minutes_def split: if_splits)

lemma scan_conflicts_error:
  "scan_conflicts s e bs = Inl err \<Longrightarrow> err = OverflowError"
  by (induction bs) (auto split: sum.splits if_splits dest: intervals_overlap_error)

lemma check_table_availability_error:
  "fst (check_table_availability table_id s dur ex d) = Inl err \<Longrightarrow> err = OverflowError"
  by (auto simp: check_table_availability_unfold split: option.splits if_splits
      dest: scan_conflicts_error)

section \<open>The claims\<close>

text \<open>
  Claim C1 says that every call on an existing table whose availability flag is on
  reports unavailable exactly when an active booking passes the interval test with the
  end \<open>E = S + D\<close> minutes. The call does not answer when \<open>S + D\<close> minutes is no
  \<open>datetime\<close>: on table 1 of the evening store, whose flag is on and whose booking A
  passes the test on the numbers, a request at 19:00 for ten thousand million minutes
  raises OverflowError.
\<close>

theorem C1_overflow_no_answer:
  "fst (check_table_availability 1 (timedelta_minutes 1140) 10000000000 None evening_db)
     = Inl OverflowError
   \<and> table_rows evening_db = [table_one] \<and> t_id table_one = 1 \<and> t_is_available table_one
   \<and> booking_rows evening_db = [booking_a] \<and> b_table_id booking_a = 1
   \<and> b_status booking_a = ''confirmed'' \<and> b_id booking_a \<noteq> None
   \<and> timedelta_minutes 1140
        < b_booking_date booking_a + timedelta_minutes (b_duration_minutes booking_a)
   \<and> b_booking_date booking_a < timedelta_minutes 1140 + timedelta_minutes 10000000000"
proof -
  have "\<not> plus_minutes_defined (timedelta_minutes 1140) 10000000000"
    by (simp add: plus_minutes_defined_def timedelta_minutes_def datetime_max_def)
  then have "fst (check_table_availability 1 (timedelta_minutes 1140) 10000000000 None
                    evening_db) = Inl OverflowError"
    by (simp add: check_table_availability_unfold)
       (simp add: evening_db_def table_one_def)
  then show ?thesis
    by (simp add: evening_db_def table_one_def booking_a_def timedelta_minutes_def)
qed

text \<open>
  Claim C1 as amended. On an existing table whose availability flag is on, let the end
  \<open>s + dur\<close> minutes of the request be a \<open>datetime\<close>, and let the end of every
  pending or confirmed booking of the table, other than the excluded one, be a
  \<open>datetime\<close>. Then \<open>check_table_availability\<close> answers, and it reports unavailable
  exactly when some booking of that table with status pending or confirmed, whose id
  differs from \<open>exclude_booking_id\<close>, has an interval with \<open>s < existing_end\<close> and
  \<open>existing_start < s + dur\<close>; in particular, when every such booking only touches the
  request at an endpoint, the request is reported available with no reason. When the end
  of the request is no \<open>datetime\<close>, the call raises OverflowError instead of answering.
\<close>

theorem C1_overlap_iff:
  assumes "\<exists>t\<in>set (table_rows d). t_id t = table_id"
      and "\<forall>t\<in>set (table_rows d). t_id t = table_id \<longrightarrow> t_is_available t"
  shows "(plus_minutes_defined s dur
          \<and> (\<forall>b\<in>set (booking_rows d).
                b_table_id b = table_id
                \<and> (b_status b = ''pending'' \<or> b_status b = ''confirmed'')
                \<and> b_id b \<noteq> ex
                \<longrightarrow> plus_minutes_defined (b_booking_date b) (b_duration_minutes b))
          \<longrightarrow> (\<exists>available reason.
                 fst (check_table_availability table_id s dur ex d) = Inr (available, reason)
                 \<and> (\<not> available
                      \<longleftrightarrow> (\<exists>b\<in>set (booking_rows d).
                             b_table_id b = table_id
                             \<and> (b_status b = ''pending'' \<or> b_status b = ''confirmed'')
                             \<and> b_id b \<noteq> ex
                             \<and> s < b_booking_date b + timedelta_minutes (b_duration_minutes b)
                             \<and> b_booking_date b < s + timedelta_minutes dur)))
              \<and> ((\<forall>b\<in>set (booking_rows d).
                      b_table_id b = table_id
                      \<and> (b_status b = ''pending'' \<or> b_status b = ''confirmed'')
                      \<and> b_id b \<noteq> ex
                      \<longrightarrow> s = b_booking_date b + timedelta_minutes (b_duration_minutes b)
                          \<or> s + timedelta_minutes dur = b_booking_date b)
                   \<longrightarrow> fst (check_table_availability table_id s dur ex d)
                         = Inr (True, None)))
         \<and> (\<not> plus_minutes_defined s dur
            \<longrightarrow> fst (check_table_availability table_id s dur ex d) = Inl OverflowError)"
proof (intro conjI impI)
  from find_table_available [OF assms] obtain t
    where t: "find (\<lambda>t. t_id t = table_id) (table_rows d) = Some t" "t_is_available t"
    by blast
  {
    assume "\<not> plus_minutes_defined s dur"
    with t show "fst (check_table_availability table_id s dur ex d) = Inl OverflowError"
      by (simp add: check_table_availability_unfold)
  }
  assume range: "plus_minutes_defined s dur
          \<and> (\<forall>b\<in>set (booking_rows d).
                b_table_id b = table_id
                \<and> (b_status b = ''pending'' \<or> b_status b = ''confirmed'')
                \<and> b_id b \<noteq> ex
                \<longrightarrow> plus_minutes_defined (b_booking_date b) (b_duration_minutes b))"
  then have req: "plus_minutes_defined s dur"
    and ends: "\<forall>b\<in>set (booking_rows d). b_table_id b = table_id \<and> is_active ex b
                 \<longrightarrow> end_defined b"
    by (auto simp: is_active_def end_defined_def)
  from check_table_availability_answers [OF t req ends] obtain available reason
    where answer: "check_table_availability table_id s dur ex d
             = (Inr (available, reason),
                issue (SELECT ''booking'') (issue (SELECT ''restaurant_table'') d))"
      and iff: "available \<longleftrightarrow>
                (\<forall>b\<in>set (booking_rows d).
                   b_table_id b = table_id \<and> is_active ex b
                   \<longrightarrow> \<not> overlap_test s (s + timedelta_minutes dur) b)"
    by blast
  from iff have "\<not> available
                      \<longleftrightarrow> (\<exists>b\<in>set (booking_rows d).
                             b_table_id b = table_id
                             \<and> (b_status b = ''pending'' \<or> b_status b = ''confirmed'')
                             \<and> b_id b \<noteq> ex
                             \<and> s < b_booking_date b + timedelta_minutes (b_duration_minutes b)
                             \<and> b_booking_date b < s + timedelta_minutes dur)"
    by (auto simp: is_active_def overlap_test_def)
  with answer show "\<exists>available reason.
                 fst (check_table_availability table_id s dur ex d) = Inr (available, reason)
                 \<and> (\<not> available
                      \<longleftrightarrow> (\<exists>b\<in>set (booking_rows d).
                             b_table_id b = table_id
                             \<and> (b_status b = ''pending'' \<or> b_status b = ''confirmed'')
                             \<and> b_id b \<noteq> ex
                             \<and> s < b_booking_date b + timedelta_minutes (b_duration_minutes b)
                             \<and> b_booking_date b < s + timedelta_minutes dur))"
    by simp
  assume touch: "\<forall>b\<in>set (booking_rows d).
                      b_table_id b = table_id
                      \<and> (b_status b = ''pending'' \<or> b_status b = ''confirmed'')
                      \<and> b_id b \<noteq> ex
                      \<longrightarrow> s = b_booking_date b + timedelta_minutes (b_duration_minutes b)
                          \<or> s + timedelta_minutes dur = b_booking_date b"
  with ends have "\<forall>b\<in>set (booking_rows d).
             b_table_id b = table_id \<and> is_active ex b
             \<longrightarrow> end_defined b \<and> \<not> overlap_test s (s + timedelta_minutes dur) b"
    by (auto simp: is_active_def overlap_test_def)
  from check_table_availability_free [OF t req this]
  show "fst (check_table_availability table_id s dur ex d) = Inr (True, None)"
    by simp
qed

text \<open>
  The scenario of the spec: booking A holds table 1 from 19:00 for 120 minutes. A request
  at 20:59 for 60 minutes is refused, a request at 21:00 is accepted.
\<close>

theorem C1_overlap_iff_witness:
  "(\<exists>reason. fst (check_table_availability 1 (timedelta_minutes 1259) 60 None evening_db)
      = Inr (False, reason))
   \<and> fst (check_table_availability 1 (timedelta_minutes 1260) 60 None evening_db)
      = Inr (True, None)"
proof -
  have h1: "\<exists>t\<in>set (table_rows evening_db). t_id t = 1"
    by (simp add: evening_db_def table_one_def)
  have h2: "\<forall>t\<in>set (table_rows evening_db). t_id t = 1 \<longrightarrow> t_is_available t"
    by (simp add: evening_db_def table_one_def)
  have range: "plus_minutes_defined (timedelta_minutes 1259) 60"
    "plus_minutes_defined (timedelta_minutes 1260) 60"
    "\<forall>b\<in>set (booking_rows evening_db).
        b_table_id b = 1 \<and> (b_status b = ''pending'' \<or> b_status b = ''confirmed'')
        \<and> b_id b \<noteq> None
        \<longrightarrow> plus_minutes_defined (b_booking_date b) (b_duration_minutes b)"
    by (simp_all add: evening_db_def booking_a_def plus_minutes_defined_def
        timedelta_minutes_def datetime_max_def)
  have overlapping: "\<exists>b\<in>set (booking_rows evening_db).
        b_table_id b = 1 \<and> (b_status b = ''pending'' \<or> b_status b = ''confirmed'')
        \<and> b_id b \<noteq> None
        \<and> timedelta_minutes 1259 < b_booking_date b + timedelta_minutes (b_duration_minutes b)
        \<and> b_booking_date b < timedelta_minutes 1259 + timedelta_minutes 60"
    by (simp add: evening_db_def booking_a_def timedelta_minutes_def)
  have touching: "\<forall>b\<in>set (booking_rows evening_db).
        b_table_id b = 1 \<and> (b_status b = ''pending'' \<or> b_status b = ''confirmed'')
        \<and> b_id b \<noteq> None
        \<longrightarrow> timedelta_minutes 1260
              = b_booking_date b + timedelta_minutes (b_duration_minutes b)
            \<or> timedelta_minutes 1260 + timedelta_minutes 60 = b_booking_date b"
    by (simp add: evening_db_def booking_a_def timedelta_minutes_def)
  from C1_overlap_iff [OF h1 h2, of "timedelta_minutes 1259" 60 None] range(1,3)
  obtain available reason where
    answer: "fst (check_table_availability 1 (timedelta_minutes 1259) 60 None evening_db)
               = Inr (available, reason)"
    and iff: "\<not> available
      \<longleftrightarrow> (\<exists>b\<in>set (booking_rows evening_db).
        b_table_id b = 1 \<and> (b_status b = ''pending'' \<or> b_status b = ''confirmed'')
        \<and> b_id b \<noteq> None
        \<and> timedelta_minutes 1259 < b_booking_date b + timedelta_minutes (b_duration_minutes b)
        \<and> b_booking_date b < timedelta_minutes 1259 + timedelta_minutes 60)"
    by blast
  from iff overlapping have "\<not> available" by blast
  with answer have rejected: "\<exists>reason.
      fst (check_table_availability 1 (timedelta_minutes 1259) 60 None evening_db)
        = Inr (False, reason)"
    by simp
  from C1_overlap_iff [OF h1 h2, of "timedelta_minutes 1260" 60 None] range(2,3) touching
  have accepted:
    "fst (check_table_availability 1 (timedelta_minutes 1260) 60 None evening_db)
       = Inr (True, None)"
    by blast
  from rejected accepted show ?thesis by blast
qed

text \<open>
  Claim C3. When no stored table has the given id, and when the stored table's
  \<open>is_available\<close> flag is false, \<open>check_table_availability\<close> returns
  \<open>False\<close> with a reason. The only statement it sends is the SELECT on
  \<open>restaurant_table\<close>: the bookings are never read.
\<close>

theorem C3_fails_closed:
  "((\<forall>t\<in>set (table_rows d). t_id t \<noteq> table_id)
      \<longrightarrow> check_table_availability table_id s dur ex d
            = (Inr (False, Some TableNotFound), issue (SELECT ''restaurant_table'') d))
   \<and> ((\<exists>t\<in>set (table_rows d). t_id t = table_id)
        \<and> (\<forall>t\<in>set (table_rows d). t_id t = table_id \<longrightarrow> \<not> t_is_available t)
      \<longrightarrow> check_table_availability table_id s dur ex d
            = (Inr (False, Some TableUnavailable), issue (SELECT ''restaurant_table'') d))"
proof (intro conjI impI)
  assume "\<forall>t\<in>set (table_rows d). t_id t \<noteq> table_id"
  then have "find (\<lambda>t. t_id t = table_id) (table_rows d) = None"
    by (simp add: find_None_iff)
  then show "check_table_availability table_id s dur ex d
            = (Inr (False, Some TableNotFound), issue (SELECT ''restaurant_table'') d)"
    by (simp add: check_table_availability_unfold)
next
  assume "(\<exists>t\<in>set (table_rows d). t_id t = table_id)
        \<and> (\<forall>t\<in>set (table_rows d). t_id t = table_id \<longrightarrow> \<not> t_is_available t)"
  then obtain t where "find (\<lambda>t. t_id t = table_id) (table_rows d) = Some t"
    and "\<not> t_is_available t"
    by (cases "find (\<lambda>t. t_id t = table_id) (table_rows d)")
       (auto simp: find_None_iff find_Some_iff)
  then show "check_table_availability table_id s dur ex d
            = (Inr (False, Some TableUnavailable), issue (SELECT ''restaurant_table'') d)"
    by (simp add: check_table_availability_unfold)
qed

theorem C3_fails_closed_witness:
  "check_table_availability 7 (timedelta_minutes 1140) 60 None evening_db
     = (Inr (False, Some TableNotFound), issue (SELECT ''restaurant_table'') evening_db)
   \<and> check_table_availability 1 (timedelta_minutes 600) 60 None closed_db
     = (Inr (False, Some TableUnavailable), issue (SELECT ''restaurant_table'') closed_db)"
proof -
  have absent: "\<forall>t\<in>set (table_rows evening_db). t_id t \<noteq> 7"
    by (simp add: evening_db_def table_one_def)
  have off: "(\<exists>t\<in>set (table_rows closed_db). t_id t = 1)
        \<and> (\<forall>t\<in>set (table_rows closed_db). t_id t = 1 \<longrightarrow> \<not> t_is_available t)"
    by (simp add: closed_db_def table_one_def)
  from C3_fails_closed [of evening_db 7 "timedelta_minutes 1140" 60 None] absent
  have first: "check_table_availability 7 (timedelta_minutes 1140) 60 None evening_db
     = (Inr (False, Some TableNotFound), issue (SELECT ''restaurant_table'') evening_db)"
    by blast
  from C3_fails_closed [of closed_db 1 "timedelta_minutes 600" 60 None] off
  have second: "check_table_availability 1 (timedelta_minutes 600) 60 None closed_db
     = (Inr (False, Some TableUnavailable), issue (SELECT ''restaurant_table'') closed_db)"
    by blast
  from first second show ?thesis by simp
qed

text \<open>
  Claim C8. \<open>check_table_availability\<close> is read-only: for every input the stored
  users, tables and bookings after the call are those before it, and every statement the
  call adds to the journal is a SELECT, whatever the answer.
\<close>

theorem C8_read_only:
  "user_rows (snd (check_table_availability table_id s dur ex d)) = user_rows d
   \<and> table_rows (snd (check_table_availability table_id s dur ex d)) = table_rows d
   \<and> booking_rows (snd (check_table_availability table_id s dur ex d)) = booking_rows d
   \<and> (\<exists>js. journal (snd (check_table_availability table_id s dur ex d)) = journal d @ js
           \<and> (\<forall>j\<in>set js. \<exists>n. j = SELECT n))"
  by (auto simp: check_table_availability_unfold split: option.splits)

theorem C8_read_only_witness:
  "booking_rows (snd (check_table_availability 1 (timedelta_minutes 1170) 60 None evening_db))
     = [booking_a]
   \<and> table_rows (snd (check_table_availability 1 (timedelta_minutes 1170) 60 None evening_db))
     = [table_one]
   \<and> user_rows (snd (check_table_availability 1 (timedelta_minutes 1170) 60 None evening_db))
     = []"
  using C8_read_only [of 1 "timedelta_minutes 1170" 60 None evening_db]
  by (simp add: evening_db_def)

text \<open>
  Claim C4 says that a \<open>create_user\<close> call whose name is not stored persists a new
  user. The columns of the table are VARCHAR(255): in the store that holds only Ann, a
  call with a new name of 256 letters and a fresh identifier fails in the driver and
  writes no row.
\<close>

theorem C4_long_name_refused:
  "fst (create_user (replicate 256 CHR ''x'') ''+9'' ''x@example.com'' 2 5 ann_db)
     = Inl CreateFailed
   \<and> user_rows (snd (create_user (replicate 256 CHR ''x'') ''+9'' ''x@example.com'' 2 5 ann_db))
     = [ann]
   \<and> user_rows ann_db = [ann] \<and> u_name ann = ''Ann'' \<and> u_id ann = 1
   \<and> replicate 256 CHR ''x'' \<noteq> ''Ann''"
proof -
  have "length (replicate 256 CHR ''x'') \<noteq> length ''Ann''"
    by simp
  then have ne: "replicate 256 CHR ''x'' \<noteq> ''Ann''"
    by metis
  have new: "replicate 256 CHR ''x'' \<notin> set (map u_name (user_rows ann_db))"
    using ne by (simp add: ann_db_def ann_def)
  have sendable: "\<not> has_nul (replicate 256 CHR ''x'')" "\<not> has_nul ''+9''"
    "\<not> has_nul ''x@example.com''"
    by (simp_all add: has_nul_def)
  have refused: "varchar_refused (replicate 256 CHR ''x'')"
    by (simp add: varchar_refused_def)
  have failed: "create_user (replicate 256 CHR ''x'') ''+9'' ''x@example.com'' 2 5 ann_db
     = (Inl CreateFailed, issue (INSERT ''user'') (issue (SELECT ''user'') ann_db))"
    by (simp add: create_user_new [OF new sendable(1)] create_user_row_def Let_def refused
        sendable)
  have rows: "user_rows ann_db = [ann]" "u_name ann = ''Ann''" "u_id ann = 1"
    by (simp_all add: ann_db_def ann_def)
  from ne rows show ?thesis
    by (simp add: failed)
qed

text \<open>
  Claim C4 as amended. A \<open>create_user\<close> call whose name is the name of a stored user
  (a text without NUL character, as every text the server holds) fails with the
  uniqueness error, sends no INSERT and leaves the store as it was (the SELECT apart).
  Otherwise, when name, phone and email have at most 255 characters, none of them NUL,
  and the generated identifier is fresh, it stores a new user with that identifier and
  creation time at the end of the table. Hence every sequence of \<open>create_user\<close> calls
  whose names have at most 255 characters only appends users, and the users it appends
  have names that differ from each other and from every name stored before.
\<close>

theorem C4_unique_names:
  "(name \<in> set (map u_name (user_rows d)) \<and> \<not> has_nul name
      \<longrightarrow> create_user name phone email new_id now d
            = (Inl (UserExists name), issue (SELECT ''user'') d))
   \<and> (name \<notin> set (map u_name (user_rows d))
       \<and> text_fits name \<and> text_fits phone \<and> text_fits email
       \<and> new_id \<notin> set (map u_id (user_rows d))
      \<longrightarrow> fst (create_user name phone email new_id now d)
            = Inr \<lparr>u_name = name, u_phone = phone, u_email = email, u_id = new_id,
                   u_created_at = now\<rparr>
          \<and> user_rows (snd (create_user name phone email new_id now d))
            = user_rows d @ [\<lparr>u_name = name, u_phone = phone, u_email = email, u_id = new_id,
                              u_created_at = now\<rparr>])
   \<and> (list_all (\<lambda>call. length (fst call) \<le> 255) calls
      \<longrightarrow> (\<exists>created. user_rows (create_users calls d) = user_rows d @ created
             \<and> distinct (map u_name created)
             \<and> set (map u_name created) \<inter> set (map u_name (user_rows d)) = {}))"
proof (intro conjI impI)
  assume "name \<in> set (map u_name (user_rows d)) \<and> \<not> has_nul name"
  then show "create_user name phone email new_id now d
            = (Inl (UserExists name), issue (SELECT ''user'') d)"
    by (simp add: create_user_duplicate)
next
  assume a: "name \<notin> set (map u_name (user_rows d))
       \<and> text_fits name \<and> text_fits phone \<and> text_fits email
       \<and> new_id \<notin> set (map u_id (user_rows d))"
  then have stored: "create_user name phone email new_id now d
           = (Inr \<lparr>u_name = name, u_phone = phone, u_email = email, u_id = new_id,
                   u_created_at = now\<rparr>,
              (issue (INSERT ''user'') (issue (SELECT ''user'') d))
                \<lparr>user_rows := user_rows d @
                   [\<lparr>u_name = name, u_phone = phone, u_email = email, u_id = new_id,
                     u_created_at = now\<rparr>]\<rparr>)"
    by (intro create_user_stored) simp_all
  show "fst (create_user name phone email new_id now d)
            = Inr \<lparr>u_name = name, u_phone = phone, u_email = email, u_id = new_id,
                   u_created_at = now\<rparr>"
    by (simp add: stored)
  show "user_rows (snd (create_user name phone email new_id now d))
            = user_rows d @ [\<lparr>u_name = name, u_phone = phone, u_email = email, u_id = new_id,
                              u_created_at = now\<rparr>]"
    by (simp add: stored)
next
  assume "list_all (\<lambda>call. length (fst call) \<le> 255) calls"
  then show "\<exists>created. user_rows (create_users calls d) = user_rows d @ created
             \<and> distinct (map u_name created)
             \<and> set (map u_name created) \<inter> set (map u_name (user_rows d)) = {}"
    by (rule create_users_appends)
qed

theorem C4_unique_names_witness:
  "create_user ''Ann'' ''+8'' ''other@example.com'' 2 5 ann_db
     = (Inl (UserExists ''Ann''), issue (SELECT ''user'') ann_db)
   \<and> user_rows (snd (create_user ''Bob'' ''+9'' ''bob@example.com'' 2 5 ann_db))
     = [ann, \<lparr>u_name = ''Bob'', u_phone = ''+9'', u_email = ''bob@example.com'', u_id = 2,
              u_created_at = 5\<rparr>]
   \<and> (\<exists>created. user_rows (create_users
          [(''Bob'', ''+9'', ''bob@example.com'', 2, 5), (''Ann'', ''+8'', ''x@example.com'', 3, 6),
           (''Bob'', ''+1'', ''b2@example.com'', 4, 7)] ann_db) = user_rows ann_db @ created
        \<and> distinct (map u_name created)
        \<and> set (map u_name created) \<inter> set (map u_name (user_rows ann_db)) = {})"
proof -
  have dup: "''Ann'' \<in> set (map u_name (user_rows ann_db)) \<and> \<not> has_nul ''Ann''"
    by (simp add: ann_db_def ann_def has_nul_def)
  have new: "''Bob'' \<notin> set (map u_name (user_rows ann_db))
             \<and> text_fits ''Bob'' \<and> text_fits ''+9''
             \<and> text_fits ''bob@example.com''
             \<and> 2 \<notin> set (map u_id (user_rows ann_db))"
    by (simp add: ann_db_def ann_def text_fits_def has_nul_def)
  have short: "list_all (\<lambda>call. length (fst call) \<le> 255)
      [(''Bob'', ''+9'', ''bob@example.com'', 2::nat, 5::int),
       (''Ann'', ''+8'', ''x@example.com'', 3, 6), (''Bob'', ''+1'', ''b2@example.com'', 4, 7)]"
    by simp
  have rows: "user_rows ann_db = [ann]"
    by (simp add: ann_db_def)
  from C4_unique_names [of "''Ann''" ann_db "''+8''" "''other@example.com''" 2 5 "[]"] dup
  have a: "create_user ''Ann'' ''+8'' ''other@example.com'' 2 5 ann_db
     = (Inl (UserExists ''Ann''), issue (SELECT ''user'') ann_db)"
    by blast
  from C4_unique_names [of "''Bob''" ann_db "''+9''" "''bob@example.com''" 2 5
      "[(''Bob'', ''+9'', ''bob@example.com'', 2, 5), (''Ann'', ''+8'', ''x@example.com'', 3, 6),
         (''Bob'', ''+1'', ''b2@example.com'', 4, 7)]"] new short
  have b: "user_rows (snd (create_user ''Bob'' ''+9'' ''bob@example.com'' 2 5 ann_db))
     = user_rows ann_db @ [\<lparr>u_name = ''Bob'', u_phone = ''+9'', u_email = ''bob@example.com'',
                             u_id = 2, u_created_at = 5\<rparr>]"
    and c: "\<exists>created. user_rows (create_users
          [(''Bob'', ''+9'', ''bob@example.com'', 2, 5), (''Ann'', ''+8'', ''x@example.com'', 3, 6),
           (''Bob'', ''+1'', ''b2@example.com'', 4, 7)] ann_db) = user_rows ann_db @ created
        \<and> distinct (map u_name created)
        \<and> set (map u_name created) \<inter> set (map u_name (user_rows ann_db)) = {}"
    by blast+
  from b have b': "user_rows (snd (create_user ''Bob'' ''+9'' ''bob@example.com'' 2 5 ann_db))
     = [ann, \<lparr>u_name = ''Bob'', u_phone = ''+9'', u_email = ''bob@example.com'', u_id = 2,
              u_created_at = 5\<rparr>]"
    by (simp add: rows)
  from a b' c show ?thesis by blast
qed

text \<open>
  Claim C2 says that cancelled is terminal: neither \<open>confirm_booking\<close> nor
  \<open>cancel_booking\<close> would move a cancelled booking to another status. The code has no
  guard on the stored status. In the store below the only booking is cancelled, and
  \<open>confirm_booking\<close> returns it confirmed and stores it confirmed.
\<close>

theorem C2_cancelled_not_terminal:
  "map b_status (booking_rows cancelled_db) = [''cancelled'']
   \<and> map b_status (booking_rows (snd (confirm_booking 10 5 cancelled_db))) = [''confirmed'']
   \<and> fst (confirm_booking 10 5 cancelled_db)
       = Inr (Some (booking_a\<lparr>b_status := ''confirmed'', b_updated_at := 5\<rparr>))"
proof -
  have found: "find (\<lambda>b. b_id b = Some 10) (booking_rows cancelled_db)
                 = Some (booking_a\<lparr>b_status := ''cancelled''\<rparr>)"
    by (simp add: cancelled_db_def booking_a_def)
  show ?thesis
    by (simp add: confirm_booking_stored [OF found]) (simp add: cancelled_db_def booking_a_def)
qed

text \<open>
  Claim C2 as amended. For every stored booking, whatever its status, \<open>confirm_booking\<close>
  succeeds and sets the status of the rows with that id to confirmed, and
  \<open>cancel_booking\<close> succeeds and sets it to cancelled; both stamp \<open>updated_at\<close> and
  leave every other row and every other field as they were. So pending and confirmed go to
  confirmed under confirm and to cancelled under cancel, a cancelled booking stays
  cancelled under cancel, and a cancelled booking becomes confirmed under confirm:
  cancelled is not terminal.
\<close>

theorem C2_status_transitions:
  assumes "\<exists>b\<in>set (booking_rows d). b_id b = Some booking_id"
  shows "(\<exists>updated. fst (confirm_booking booking_id now d) = Inr (Some updated)
                    \<and> b_status updated = ''confirmed'')
         \<and> booking_rows (snd (confirm_booking booking_id now d))
             = map (\<lambda>row. if b_id row = Some booking_id
                         then row\<lparr>b_status := ''confirmed'', b_updated_at := now\<rparr> else row)
                   (booking_rows d)
         \<and> (\<exists>updated. fst (cancel_booking booking_id now d) = Inr (Some updated)
                    \<and> b_status updated = ''cancelled'')
         \<and> booking_rows (snd (cancel_booking booking_id now d))
             = map (\<lambda>row. if b_id row = Some booking_id
                         then row\<lparr>b_status := ''cancelled'', b_updated_at := now\<rparr> else row)
                   (booking_rows d)"
proof -
  from find_id_exists [OF assms] obtain found
    where found: "find (\<lambda>b. b_id b = Some booking_id) (booking_rows d) = Some found"
    by blast
  show ?thesis
    by (simp add: confirm_booking_stored [OF found] cancel_booking_stored [OF found])
qed

theorem C2_status_transitions_witness:
  "booking_rows (snd (confirm_booking 10 5 evening_db))
     = [booking_a\<lparr>b_status := ''confirmed'', b_updated_at := 5\<rparr>]
   \<and> booking_rows (snd (cancel_booking 10 5 evening_db))
     = [booking_a\<lparr>b_status := ''cancelled'', b_updated_at := 5\<rparr>]
   \<and> booking_rows (snd (cancel_booking 10 6 cancelled_db))
     = [booking_a\<lparr>b_status := ''cancelled'', b_updated_at := 6\<rparr>]"
proof -
  have stored: "\<exists>b\<in>set (booking_rows evening_db). b_id b = Some 10"
    by (simp add: evening_db_def booking_a_def)
  have stored': "\<exists>b\<in>set (booking_rows cancelled_db). b_id b = Some 10"
    by (simp add: cancelled_db_def booking_a_def)
  from C2_status_transitions [OF stored, of 5] C2_status_transitions [OF stored', of 6]
  show ?thesis
    by (simp add: evening_db_def cancelled_db_def booking_a_def)
qed

text \<open>
  Claim C7 says that after a successful \<open>cancel_booking\<close> the slot of the booking is
  available again, provided no other active booking overlaps it. Three stores show what
  the sentence leaves out. In the first the table's availability flag is off: the only
  booking is cancelled with success, and the check for the same start and duration still
  reports unavailable. In the second the table is open and booking A is cancelled with
  success: the check reports available, and a \<open>create_booking\<close> for the slot with a
  guest count of \<open>2147483648\<close> fails in the driver, the column being a 32-bit INTEGER.
  In the third the cancelled booking ends after the last representable instant: the
  check for its start and duration raises OverflowError.
\<close>

theorem C7_closed_table_stays_unavailable:
  "fst (cancel_booking 10 5 closed_db)
     = Inr (Some (booking_a\<lparr>b_status := ''cancelled'', b_updated_at := 5\<rparr>))
   \<and> booking_rows (snd (cancel_booking 10 5 closed_db))
     = [booking_a\<lparr>b_status := ''cancelled'', b_updated_at := 5\<rparr>]
   \<and> b_booking_date booking_a = timedelta_minutes 1140
   \<and> b_duration_minutes booking_a = 120
   \<and> b_table_id booking_a = 1
   \<and> fst (check_table_availability 1 (timedelta_minutes 1140) 120 None
            (snd (cancel_booking 10 5 closed_db)))
     = Inr (False, Some TableUnavailable)
   \<and> fst (cancel_booking 10 5 evening_db)
     = Inr (Some (booking_a\<lparr>b_status := ''cancelled'', b_updated_at := 5\<rparr>))
   \<and> fst (check_table_availability 1 (timedelta_minutes 1140) 120 None
            (snd (cancel_booking 10 5 evening_db)))
     = Inr (True, None)
   \<and> fst (create_booking 2 1 (timedelta_minutes 1140) 2147483648 120 ''pending'' [] True 11 6 6
            (snd (cancel_booking 10 5 evening_db)))
     = Inl CreateFailed
   \<and> booking_rows (snd (create_booking 2 1 (timedelta_minutes 1140) 2147483648 120 ''pending''
            [] True 11 6 6 (snd (cancel_booking 10 5 evening_db))))
     = [booking_a\<lparr>b_status := ''cancelled'', b_updated_at := 5\<rparr>]
   \<and> fst (cancel_booking 20 5 late_db)
     = Inr (Some (booking_z\<lparr>b_status := ''cancelled'', b_updated_at := 5\<rparr>))
   \<and> fst (check_table_availability 1 (b_booking_date booking_z)
            (b_duration_minutes booking_z) None (snd (cancel_booking 20 5 late_db)))
     = Inl OverflowError"
proof -
  have closed: "find (\<lambda>b. b_id b = Some 10) (booking_rows closed_db) = Some booking_a"
    by (simp add: closed_db_def booking_a_def)
  have evening: "find (\<lambda>b. b_id b = Some 10) (booking_rows evening_db) = Some booking_a"
    by (simp add: evening_db_def booking_a_def)
  have late: "find (\<lambda>b. b_id b = Some 20) (booking_rows late_db) = Some booking_z"
    by (simp add: late_db_def booking_z_def)
  have c1: "fst (cancel_booking 10 5 closed_db)
     = Inr (Some (booking_a\<lparr>b_status := ''cancelled'', b_updated_at := 5\<rparr>))"
    by (simp add: cancel_booking_stored [OF closed])
  have c2: "booking_rows (snd (cancel_booking 10 5 closed_db))
     = [booking_a\<lparr>b_status := ''cancelled'', b_updated_at := 5\<rparr>]"
    by (simp add: cancel_booking_stored [OF closed]) (simp add: closed_db_def booking_a_def)
  have c3: "b_booking_date booking_a = timedelta_minutes 1140"
    "b_duration_minutes booking_a = 120" "b_table_id booking_a = 1"
    by (simp_all add: booking_a_def)
  have c4: "fst (check_table_availability 1 (timedelta_minutes 1140) 120 None
            (snd (cancel_booking 10 5 closed_db)))
     = Inr (False, Some TableUnavailable)"
    by (simp add: cancel_booking_stored [OF closed] check_table_availability_unfold)
       (simp add: closed_db_def table_one_def)
  have e1: "fst (cancel_booking 10 5 evening_db)
     = Inr (Some (booking_a\<lparr>b_status := ''cancelled'', b_updated_at := 5\<rparr>))"
    by (simp add: cancel_booking_stored [OF evening])
  have e2: "check_table_availability 1 (timedelta_minutes 1140) 120 None
            (snd (cancel_booking 10 5 evening_db))
     = (Inr (True, None),
        issue (SELECT ''booking'') (issue (SELECT ''restaurant_table'')
          (snd (cancel_booking 10 5 evening_db))))"
    by (simp add: cancel_booking_stored [OF evening] check_table_availability_unfold)
       (simp add: evening_db_def table_one_def booking_a_def candidates_def is_active_def
          plus_minutes_defined_def timedelta_minutes_def datetime_max_def)
  have e3: "create_booking 2 1 (timedelta_minutes 1140) 2147483648 120 ''pending'' [] True 11 6 6
            (snd (cancel_booking 10 5 evening_db))
     = (Inl CreateFailed,
        issue (INSERT ''booking'') (issue (SELECT ''booking'')
          (issue (SELECT ''restaurant_table'') (snd (cancel_booking 10 5 evening_db)))))"
    unfolding create_booking_def Let_def e2
    by (simp add: create_booking_row_def booking_fields_def nul_value_def has_nul_def
        column_refused_def int32_def)
  have e4: "booking_rows (snd (create_booking 2 1 (timedelta_minutes 1140) 2147483648 120
            ''pending'' [] True 11 6 6 (snd (cancel_booking 10 5 evening_db))))
     = [booking_a\<lparr>b_status := ''cancelled'', b_updated_at := 5\<rparr>]"
    unfolding e3
    by (simp add: cancel_booking_stored [OF evening]) (simp add: evening_db_def booking_a_def)
  have l1: "fst (cancel_booking 20 5 late_db)
     = Inr (Some (booking_z\<lparr>b_status := ''cancelled'', b_updated_at := 5\<rparr>))"
    by (simp add: cancel_booking_stored [OF late])
  have l2: "fst (check_table_availability 1 (b_booking_date booking_z)
            (b_duration_minutes booking_z) None (snd (cancel_booking 20 5 late_db)))
     = Inl OverflowError"
    by (simp add: cancel_booking_stored [OF late] check_table_availability_unfold)
       (simp add: late_db_def table_one_def booking_z_def plus_minutes_defined_def
          timedelta_minutes_def datetime_max_def)
  from c1 c2 c3 c4 e1 e2 e3 e4 l1 l2 show ?thesis
    by simp
qed

text \<open>
  Claim C7 as amended. Let table \<open>table_id\<close> be stored with its availability flag on,
  let a stored booking with id \<open>booking_id\<close> occupy \<open>[s, s + dur)\<close> on it, let
  \<open>s + dur\<close> be a representable instant, and let every other active booking of the
  table have a representable end and not overlap that interval. Then \<open>cancel_booking\<close>
  succeeds, the following \<open>check_table_availability\<close> for the same table, start and
  duration reports available, and \<open>create_booking\<close> with the check on stores the new
  booking when the generated id is fresh, guest count and duration are 32-bit integers
  and status and special requests have at most 255 characters, none of them NUL.
\<close>

theorem C7_cancel_releases_slot:
  assumes "\<exists>t\<in>set (table_rows d). t_id t = table_id"
      and "\<forall>t\<in>set (table_rows d). t_id t = table_id \<longrightarrow> t_is_available t"
      and "B \<in> set (booking_rows d)" and "b_id B = Some booking_id"
      and "b_table_id B = table_id" and "b_booking_date B = s" and "b_duration_minutes B = dur"
      and "plus_minutes_defined s dur"
      and "\<forall>b\<in>set (booking_rows d).
             b_table_id b = table_id
             \<and> (b_status b = ''pending'' \<or> b_status b = ''confirmed'')
             \<and> b_id b \<noteq> Some booking_id
             \<longrightarrow> plus_minutes_defined (b_booking_date b) (b_duration_minutes b)
                 \<and> \<not> (s < b_booking_date b + timedelta_minutes (b_duration_minutes b)
                      \<and> b_booking_date b < s + timedelta_minutes dur)"
  shows "(\<exists>cancelled. fst (cancel_booking booking_id now d) = Inr (Some cancelled)
                      \<and> b_status cancelled = ''cancelled'')
         \<and> fst (check_table_availability table_id s dur None
                  (snd (cancel_booking booking_id now d))) = Inr (True, None)
         \<and> (Some new_id \<notin> set (map b_id (booking_rows d))
            \<and> int32 guest_count \<and> int32 dur
            \<and> text_fits status \<and> text_fits special_requests
            \<longrightarrow> fst (create_booking user_id table_id s guest_count dur status
                       special_requests True new_id created_at updated_at
                       (snd (cancel_booking booking_id now d)))
                  = Inr \<lparr>b_user_id = user_id, b_table_id = table_id, b_booking_date = s,
                         b_guest_count = guest_count, b_id = Some new_id,
                         b_duration_minutes = dur, b_status = status,
                         b_special_requests = special_requests,
                         b_created_at = created_at, b_updated_at = updated_at\<rparr>
                \<and> \<lparr>b_user_id = user_id, b_table_id = table_id, b_booking_date = s,
                    b_guest_count = guest_count, b_id = Some new_id,
                    b_duration_minutes = dur, b_status = status,
                    b_special_requests = special_requests,
                    b_created_at = created_at, b_updated_at = updated_at\<rparr>
                  \<in> set (booking_rows (snd (create_booking user_id table_id s
                       guest_count dur status special_requests True new_id created_at
                       updated_at (snd (cancel_booking booking_id now d))))))"
proof -
  from assms(3,4) have "\<exists>b\<in>set (booking_rows d). b_id b = Some booking_id" by blast
  from find_id_exists [OF this] obtain found
    where found: "find (\<lambda>b. b_id b = Some booking_id) (booking_rows d) = Some found"
    by blast
  define d1 where "d1 = snd (cancel_booking booking_id now d)"
  have cancelled: "fst (cancel_booking booking_id now d)
                     = Inr (Some (found\<lparr>b_status := ''cancelled'', b_updated_at := now\<rparr>))"
    by (simp add: cancel_booking_stored [OF found])
  have rows1: "booking_rows d1
                 = map (\<lambda>row. if b_id row = Some booking_id
                              then row\<lparr>b_status := ''cancelled'', b_updated_at := now\<rparr> else row)
                       (booking_rows d)"
    and tables1: "table_rows d1 = table_rows d"
    by (simp_all add: d1_def cancel_booking_stored [OF found])
  have ids1: "map b_id (booking_rows d1) = map b_id (booking_rows d)"
    by (simp add: rows1)
  from find_table_available [OF assms(1,2)] obtain t
    where t: "find (\<lambda>t. t_id t = table_id) (table_rows d1) = Some t" "t_is_available t"
    by (auto simp: tables1)
  have free: "\<forall>b\<in>set (booking_rows d1).
                b_table_id b = table_id \<and> is_active None b
                \<longrightarrow> end_defined b \<and> \<not> overlap_test s (s + timedelta_minutes dur) b"
    using assms(9) by (auto simp: rows1 is_active_def end_defined_def overlap_test_def)
  have avail: "check_table_availability table_id s dur None d1
                 = (Inr (True, None),
                    issue (SELECT ''booking'') (issue (SELECT ''restaurant_table'') d1))"
    by (rule check_table_availability_free [OF t assms(8) free])
  have created: "Some new_id \<notin> set (map b_id (booking_rows d))
            \<and> int32 guest_count \<and> int32 dur
            \<and> text_fits status \<and> text_fits special_requests \<Longrightarrow>
        create_booking user_id table_id s guest_count dur status special_requests True
           new_id created_at updated_at d1
         = (Inr \<lparr>b_user_id = user_id, b_table_id = table_id, b_booking_date = s,
                 b_guest_count = guest_count, b_id = Some new_id, b_duration_minutes = dur,
                 b_status = status, b_special_requests = special_requests,
                 b_created_at = created_at, b_updated_at = updated_at\<rparr>,
            (issue (INSERT ''booking'')
               (issue (SELECT ''booking'') (issue (SELECT ''restaurant_table'') d1)))
              \<lparr>booking_rows := booking_rows d1 @
               [\<lparr>b_user_id = user_id, b_table_id = table_id, b_booking_date = s,
                 b_guest_count = guest_count, b_id = Some new_id, b_duration_minutes = dur,
                 b_status = status, b_special_requests = special_requests,
                 b_created_at = created_at, b_updated_at = updated_at\<rparr>]\<rparr>)"
    by (intro create_booking_checked [OF avail]) (simp_all add: ids1)
  show ?thesis
  proof (intro conjI impI)
    from cancelled
    show "\<exists>cancelled. fst (cancel_booking booking_id now d) = Inr (Some cancelled)
                      \<and> b_status cancelled = ''cancelled''"
      by simp
    from avail
    show "fst (check_table_availability table_id s dur None
                  (snd (cancel_booking booking_id now d))) = Inr (True, None)"
      by (simp add: d1_def)
  next
    assume a: "Some new_id \<notin> set (map b_id (booking_rows d))
            \<and> int32 guest_count \<and> int32 dur
            \<and> text_fits status \<and> text_fits special_requests"
    note c = created [OF a, unfolded d1_def]
    show "fst (create_booking user_id table_id s guest_count dur status
                       special_requests True new_id created_at updated_at
                       (snd (cancel_booking booking_id now d)))
                  = Inr \<lparr>b_user_id = user_id, b_table_id = table_id, b_booking_date = s,
                         b_guest_count = guest_count, b_id = Some new_id,
                         b_duration_minutes = dur, b_status = status,
                         b_special_requests = special_requests,
                         b_created_at = created_at, b_updated_at = updated_at\<rparr>"
      by (simp add: c)
    show "\<lparr>b_user_id = user_id, b_table_id = table_id, b_booking_date = s,
                    b_guest_count = guest_count, b_id = Some new_id,
                    b_duration_minutes = dur, b_status = status,
                    b_special_requests = special_requests,
                    b_created_at = created_at, b_updated_at = updated_at\<rparr>
                  \<in> set (booking_rows (snd (create_booking user_id table_id s
                       guest_count dur status special_requests True new_id created_at
                       updated_at (snd (cancel_booking booking_id now d)))))"
      by (simp add: c)
  qed
qed

theorem C7_cancel_releases_slot_witness:
  "fst (check_table_availability 1 (timedelta_minutes 1140) 120 None
          (snd (cancel_booking 10 5 evening_db))) = Inr (True, None)
   \<and> fst (create_booking 2 1 (timedelta_minutes 1140) 4 120 ''pending'' [] True 11 6 6
            (snd (cancel_booking 10 5 evening_db)))
     = Inr \<lparr>b_user_id = 2, b_table_id = 1, b_booking_date = timedelta_minutes 1140,
            b_guest_count = 4, b_id = Some 11, b_duration_minutes = 120,
            b_status = ''pending'', b_special_requests = [], b_created_at = 6,
            b_updated_at = 6\<rparr>"
proof -
  have h1: "\<exists>t\<in>set (table_rows evening_db). t_id t = 1"
    and h2: "\<forall>t\<in>set (table_rows evening_db). t_id t = 1 \<longrightarrow> t_is_available t"
    and h3: "booking_a \<in> set (booking_rows evening_db)"
    and h4: "b_id booking_a = Some 10" and h5: "b_table_id booking_a = 1"
    and h6: "b_booking_date booking_a = timedelta_minutes 1140"
    and h7: "b_duration_minutes booking_a = 120"
    and h8: "plus_minutes_defined (timedelta_minutes 1140) 120"
    and h9: "\<forall>b\<in>set (booking_rows evening_db).
             b_table_id b = 1
             \<and> (b_status b = ''pending'' \<or> b_status b = ''confirmed'')
             \<and> b_id b \<noteq> Some 10
             \<longrightarrow> plus_minutes_defined (b_booking_date b) (b_duration_minutes b)
                 \<and> \<not> (timedelta_minutes 1140
                       < b_booking_date b + timedelta_minutes (b_duration_minutes b)
                    \<and> b_booking_date b < timedelta_minutes 1140 + timedelta_minutes 120)"
    and fresh: "Some 11 \<notin> set (map b_id (booking_rows evening_db))
            \<and> int32 4 \<and> int32 120
            \<and> text_fits ''pending'' \<and> text_fits []"
    by (simp_all add: evening_db_def table_one_def booking_a_def plus_minutes_defined_def
          timedelta_minutes_def datetime_max_def int32_def text_fits_def has_nul_def)
  from C7_cancel_releases_slot [OF h1 h2 h3 h4 h5 h6 h7 h8 h9,
      of 5 11 4 "''pending''" "[]" 2 6 6] fresh
  show ?thesis by blast
qed




text \<open>
  Claim C10. For an \<open>update_booking\<close> call with \<open>check_availability\<close> on: when the
  booking has no id, nothing is sent and the driver's update raises for the missing id;
  when the id matches no stored booking, the only statements sent are the SELECT of the
  re-read and at most the UPDATE, the tables are never read, no row is changed, and the
  call fails with the driver's update error. In neither case is a conflict reported.
\<close>

theorem C10_check_skipped:
  "(b_id entity = None
      \<longrightarrow> update_booking entity update_fields True now d = (Inl EntityWithoutId, d))
   \<and> (b_id entity = Some i \<and> (\<forall>b\<in>set (booking_rows d). b_id b \<noteq> Some i)
      \<longrightarrow> update_booking_check entity True d = (None, issue (SELECT ''booking'') d)
          \<and> fst (update_booking entity update_fields True now d) = Inl UpdateFailed
          \<and> booking_rows (snd (update_booking entity update_fields True now d))
              = booking_rows d
          \<and> (journal (snd (update_booking entity update_fields True now d))
               = journal d @ [SELECT ''booking'']
             \<or> journal (snd (update_booking entity update_fields True now d))
               = journal d @ [SELECT ''booking'', UPDATE ''booking'']))"
proof (intro conjI impI)
  assume "b_id entity = None"
  then show "update_booking entity update_fields True now d = (Inl EntityWithoutId, d)"
    by (simp add: update_booking_def update_booking_check_def update_booking_row_def)
next
  assume a: "b_id entity = Some i \<and> (\<forall>b\<in>set (booking_rows d). b_id b \<noteq> Some i)"
  then have none: "find (\<lambda>b. b_id b = Some i) (booking_rows d) = None"
    by (simp add: find_None_iff)
  with a show check: "update_booking_check entity True d = (None, issue (SELECT ''booking'') d)"
    by (simp add: update_booking_check_unfold)
  from a have id': "b_id (entity\<lparr>b_updated_at := now\<rparr>) = Some i"
    and absent: "\<forall>b\<in>set (booking_rows (issue (SELECT ''booking'') d)). b_id b \<noteq> Some i"
    by simp_all
  note row = update_booking_row_absent [OF id' absent, of "with_updated_at update_fields"]
  have upd: "update_booking entity update_fields True now d
               = update_booking_row (entity\<lparr>b_updated_at := now\<rparr>)
                   (with_updated_at update_fields) (issue (SELECT ''booking'') d)"
    by (simp add: update_booking_def check)
  from row show "fst (update_booking entity update_fields True now d) = Inl UpdateFailed"
    by (simp add: upd)
  from row show "booking_rows (snd (update_booking entity update_fields True now d))
                   = booking_rows d"
    by (simp add: upd)
  from row show "journal (snd (update_booking entity update_fields True now d))
               = journal d @ [SELECT ''booking'']
             \<or> journal (snd (update_booking entity update_fields True now d))
               = journal d @ [SELECT ''booking'', UPDATE ''booking'']"
    by (auto simp: upd)
qed

text \<open>
  In the store with bookings A and C, a booking without an id and a booking with the
  unknown id 99 are both placed on C's slot: neither call reports the conflict.
\<close>

theorem C10_check_skipped_witness:
  "update_booking (booking_c\<lparr>b_id := None\<rparr>) None True 7 double_db
     = (Inl EntityWithoutId, double_db)
   \<and> fst (update_booking (booking_c\<lparr>b_id := Some 99\<rparr>) None True 7 double_db)
     = Inl UpdateFailed
   \<and> booking_rows (snd (update_booking (booking_c\<lparr>b_id := Some 99\<rparr>) None True 7 double_db))
     = [booking_a, booking_c]"
proof -
  have none: "b_id (booking_c\<lparr>b_id := None\<rparr>) = None" by simp
  have unknown: "b_id (booking_c\<lparr>b_id := Some 99\<rparr>) = Some 99
                 \<and> (\<forall>b\<in>set (booking_rows double_db). b_id b \<noteq> Some 99)"
    by (simp add: double_db_def booking_a_def booking_c_def)
  from C10_check_skipped [of "booking_c\<lparr>b_id := None\<rparr>" None 7 double_db 99] none
  have first: "update_booking (booking_c\<lparr>b_id := None\<rparr>) None True 7 double_db
                 = (Inl EntityWithoutId, double_db)"
    by blast
  from C10_check_skipped [of "booking_c\<lparr>b_id := Some 99\<rparr>" None 7 double_db 99] unknown
  have second: "fst (update_booking (booking_c\<lparr>b_id := Some 99\<rparr>) None True 7 double_db)
                  = Inl UpdateFailed
                \<and> booking_rows (snd (update_booking (booking_c\<lparr>b_id := Some 99\<rparr>) None True 7
                                       double_db))
                  = booking_rows double_db"
    by blast
  from first second show ?thesis by (simp add: double_db_def)
qed

text \<open>
  Claim C9 says that a zero-duration booking placed at the start of an existing active
  booking of the table passes the overlap test and is persisted. It is not persisted in
  every store: with the table's availability flag off the call is refused before any
  interval is compared, and on the open table with bookings A and C a zero-duration
  booking at the start of C lies inside A and is refused for A. On the open table with A
  as the only booking, a zero-duration booking at the start of A for \<open>-2147483649\<close>
  guests passes the check and fails in the driver, the column being a 32-bit INTEGER.
\<close>

theorem C9_zero_duration_refused:
  "fst (create_booking 2 1 (b_booking_date booking_a) 2 0 ''pending'' [] True 12 8 8 closed_db)
     = Inl (CannotCreateBooking (Some TableUnavailable))
   \<and> booking_a \<in> set (booking_rows closed_db)
   \<and> is_active None booking_a \<and> b_table_id booking_a = 1
   \<and> fst (create_booking 2 1 (b_booking_date booking_c) 2 0 ''pending'' [] True 12 8 8
            double_db)
     = Inl (CannotCreateBooking (Some (AlreadyBooked booking_a)))
   \<and> booking_c \<in> set (booking_rows double_db)
   \<and> is_active None booking_c \<and> b_table_id booking_c = 1
   \<and> fst (check_table_availability 1 (b_booking_date booking_a) 0 None evening_db)
     = Inr (True, None)
   \<and> fst (create_booking 2 1 (b_booking_date booking_a) (- 2147483649) 0 ''pending'' [] True
            12 8 8 evening_db)
     = Inl CreateFailed
   \<and> booking_rows (snd (create_booking 2 1 (b_booking_date booking_a) (- 2147483649) 0
            ''pending'' [] True 12 8 8 evening_db))
     = [booking_a]
   \<and> booking_rows evening_db = [booking_a]"
proof -
  have first: "check_table_availability 1 (b_booking_date booking_a) 0 None closed_db
                 = (Inr (False, Some TableUnavailable),
                    issue (SELECT ''restaurant_table'') closed_db)"
    by (simp add: check_table_availability_unfold)
       (simp add: closed_db_def table_one_def)
  have second: "check_table_availability 1 (b_booking_date booking_c) 0 None double_db
                  = (Inr (False, Some (AlreadyBooked booking_a)),
                     issue (SELECT ''booking'') (issue (SELECT ''restaurant_table'') double_db))"
    by (simp add: check_table_availability_unfold)
       (simp add: double_db_def table_one_def candidates_def booking_a_def booking_c_def
          is_active_def intervals_overlap_def add_minutes_def plus_minutes_defined_def
          datetime_max_def timedelta_minutes_def)
  have third: "check_table_availability 1 (b_booking_date booking_a) 0 None evening_db
                  = (Inr (True, None),
                     issue (SELECT ''booking'') (issue (SELECT ''restaurant_table'') evening_db))"
    by (simp add: check_table_availability_unfold)
       (simp add: evening_db_def table_one_def candidates_def booking_a_def
          is_active_def intervals_overlap_def add_minutes_def plus_minutes_defined_def
          datetime_max_def timedelta_minutes_def)
  have refused: "fst (create_booking 2 1 (b_booking_date booking_a) 2 0 ''pending'' [] True
                        12 8 8 closed_db)
                   = Inl (CannotCreateBooking (Some TableUnavailable))"
    unfolding create_booking_def Let_def first by simp
  have refused': "fst (create_booking 2 1 (b_booking_date booking_c) 2 0 ''pending'' [] True
                         12 8 8 double_db)
                    = Inl (CannotCreateBooking (Some (AlreadyBooked booking_a)))"
    unfolding create_booking_def Let_def second by simp
  have failed: "create_booking 2 1 (b_booking_date booking_a) (- 2147483649) 0 ''pending'' []
                     True 12 8 8 evening_db
                  = (Inl CreateFailed,
                     issue (INSERT ''booking'') (issue (SELECT ''booking'')
                       (issue (SELECT ''restaurant_table'') evening_db)))"
    unfolding create_booking_def Let_def third
    by (simp add: create_booking_row_def booking_fields_def nul_value_def has_nul_def
        column_refused_def int32_def)
  have stored: "booking_a \<in> set (booking_rows closed_db)
                \<and> is_active None booking_a \<and> b_table_id booking_a = 1
                \<and> booking_c \<in> set (booking_rows double_db)
                \<and> is_active None booking_c \<and> b_table_id booking_c = 1
                \<and> booking_rows evening_db = [booking_a]"
    by (simp add: closed_db_def double_db_def evening_db_def booking_a_def booking_c_def
        is_active_def)
  from refused refused' third stored show ?thesis
    unfolding failed by simp
qed

text \<open>
  Claim C9 as amended. \<open>create_booking\<close> validates neither \<open>duration_minutes\<close> nor
  \<open>guest_count\<close>: whatever their sign, with the check off the booking is stored as
  given, when the generated id is fresh, both numbers are 32-bit integers and status and
  special requests have at most 255 characters, none of them NUL; and every error of a
  call is the
  driver's, the OverflowError raised by the availability check, or the refusal of the
  availability check. Under the strict test a zero-duration request never overlaps a
  booking that starts at the same instant. So with the check on, a zero-duration booking
  at the start of an existing active booking is stored, provided the table is stored with
  its availability flag on, the start is a representable instant, the active bookings of
  the table have representable ends, none of them that starts at another instant
  overlaps the request, the generated id is fresh, the guest count is a 32-bit integer
  and status and special requests have at most 255 characters, none of them NUL.
\<close>

theorem C9_no_positivity_validation:
  "(Some new_id \<notin> set (map b_id (booking_rows d))
    \<and> int32 guest_count \<and> int32 dur
    \<and> text_fits status \<and> text_fits special_requests
      \<longrightarrow> (\<exists>created.
             fst (create_booking user_id table_id s guest_count dur status special_requests
                    False new_id created_at updated_at d) = Inr created
             \<and> b_duration_minutes created = dur \<and> b_guest_count created = guest_count
             \<and> created \<in> set (booking_rows (snd (create_booking user_id table_id s guest_count
                    dur status special_requests False new_id created_at updated_at d)))))
   \<and> (fst (create_booking user_id table_id s guest_count dur status special_requests
             check_availability new_id created_at updated_at d) = Inl e
      \<longrightarrow> e = CreateFailed
          \<or> (check_availability \<and> e = OverflowError
              \<and> fst (check_table_availability table_id s dur None d) = Inl OverflowError)
          \<or> (check_availability
              \<and> (\<exists>r. fst (check_table_availability table_id s dur None d) = Inr (False, r)
                      \<and> e = CannotCreateBooking r)))
   \<and> (b_booking_date b = s \<longrightarrow> intervals_overlap s (s + timedelta_minutes 0) b \<noteq> Inr True)
   \<and> ((\<exists>t\<in>set (table_rows d). t_id t = table_id)
       \<and> (\<forall>t\<in>set (table_rows d). t_id t = table_id \<longrightarrow> t_is_available t)
       \<and> b \<in> set (booking_rows d) \<and> b_table_id b = table_id \<and> is_active None b
       \<and> b_booking_date b = s
       \<and> plus_minutes_defined s 0
       \<and> (\<forall>b'\<in>set (booking_rows d).
             b_table_id b' = table_id \<and> is_active None b'
             \<longrightarrow> plus_minutes_defined (b_booking_date b') (b_duration_minutes b'))
       \<and> (\<forall>b'\<in>set (booking_rows d).
             b_table_id b' = table_id \<and> is_active None b' \<and> b_booking_date b' \<noteq> s
             \<longrightarrow> \<not> (s < b_booking_date b' + timedelta_minutes (b_duration_minutes b')
                    \<and> b_booking_date b' < s + timedelta_minutes 0))
       \<and> Some new_id \<notin> set (map b_id (booking_rows d))
       \<and> int32 guest_count \<and> text_fits status \<and> text_fits special_requests
      \<longrightarrow> (\<exists>created.
             fst (create_booking user_id table_id s guest_count 0 status special_requests
                    True new_id created_at updated_at d) = Inr created
             \<and> b_duration_minutes created = 0
             \<and> created \<in> set (booking_rows (snd (create_booking user_id table_id s guest_count
                    0 status special_requests True new_id created_at updated_at d)))))"
proof (intro conjI impI)
  let ?entity = "\<lparr>b_user_id = user_id, b_table_id = table_id, b_booking_date = s,
                   b_guest_count = guest_count, b_id = Some new_id, b_duration_minutes = dur,
                   b_status = status, b_special_requests = special_requests,
                   b_created_at = created_at, b_updated_at = updated_at\<rparr>"
  assume a: "Some new_id \<notin> set (map b_id (booking_rows d))
    \<and> int32 guest_count \<and> int32 dur
    \<and> text_fits status \<and> text_fits special_requests"
  then have "create_booking_row ?entity d
           = (Inr ?entity, (issue (INSERT ''booking'') d)
                            \<lparr>booking_rows := booking_rows d @ [?entity]\<rparr>)"
    by (intro create_booking_row_stored) (simp_all add: fits_columns_def)
  then show "\<exists>created.
             fst (create_booking user_id table_id s guest_count dur status special_requests
                    False new_id created_at updated_at d) = Inr created
             \<and> b_duration_minutes created = dur \<and> b_guest_count created = guest_count
             \<and> created \<in> set (booking_rows (snd (create_booking user_id table_id s guest_count
                    dur status special_requests False new_id created_at updated_at d)))"
    by (simp add: create_booking_def Let_def)
next
  let ?entity = "\<lparr>b_user_id = user_id, b_table_id = table_id, b_booking_date = s,
                   b_guest_count = guest_count, b_id = Some new_id, b_duration_minutes = dur,
                   b_status = status, b_special_requests = special_requests,
                   b_created_at = created_at, b_updated_at = updated_at\<rparr>"
  assume a: "fst (create_booking user_id table_id s guest_count dur status special_requests
             check_availability new_id created_at updated_at d) = Inl e"
  have row: "\<And>d'. fst (create_booking_row ?entity d') = Inl e \<Longrightarrow> e = CreateFailed"
    by (auto simp: create_booking_row_def Let_def split: if_splits option.splits)
  show "e = CreateFailed
          \<or> (check_availability \<and> e = OverflowError
              \<and> fst (check_table_availability table_id s dur None d) = Inl OverflowError)
          \<or> (check_availability
              \<and> (\<exists>r. fst (check_table_availability table_id s dur None d) = Inr (False, r)
                      \<and> e = CannotCreateBooking r))"
  proof (cases check_availability)
    case False
    with a have "fst (create_booking_row ?entity d) = Inl e"
      by (simp add: create_booking_def Let_def)
    from row [OF this] show ?thesis by simp
  next
    case True
    obtain outcome d1 where check: "check_table_availability table_id s dur None d = (outcome, d1)"
      by (cases "check_table_availability table_id s dur None d")
    show ?thesis
    proof (cases outcome)
      case (Inl err)
      with check have "fst (check_table_availability table_id s dur None d) = Inl err"
        by simp
      from check_table_availability_error [OF this] have err: "err = OverflowError" .
      from a True check Inl have "e = err"
        by (simp add: create_booking_def Let_def)
      with err check Inl True show ?thesis by simp
    next
      case (Inr answer)
      obtain available r where answer: "answer = (available, r)"
        by (cases answer)
      show ?thesis
      proof (cases available)
        case False
        from a True check Inr answer False have "e = CannotCreateBooking r"
          by (simp add: create_booking_def Let_def)
        with check Inr answer False True show ?thesis by simp
      next
        case avail: True
        from a True check Inr answer avail have "fst (create_booking_row ?entity d1) = Inl e"
          by (simp add: create_booking_def Let_def)
        from row [OF this] show ?thesis by simp
      qed
    qed
  qed
next
  assume "b_booking_date b = s"
  then show "intervals_overlap s (s + timedelta_minutes 0) b \<noteq> Inr True"
    by (auto simp: intervals_overlap_def add_minutes_def timedelta_minutes_def
        split: if_splits)
next
  assume a: "(\<exists>t\<in>set (table_rows d). t_id t = table_id)
       \<and> (\<forall>t\<in>set (table_rows d). t_id t = table_id \<longrightarrow> t_is_available t)
       \<and> b \<in> set (booking_rows d) \<and> b_table_id b = table_id \<and> is_active None b
       \<and> b_booking_date b = s
       \<and> plus_minutes_defined s 0
       \<and> (\<forall>b'\<in>set (booking_rows d).
             b_table_id b' = table_id \<and> is_active None b'
             \<longrightarrow> plus_minutes_defined (b_booking_date b') (b_duration_minutes b'))
       \<and> (\<forall>b'\<in>set (booking_rows d).
             b_table_id b' = table_id \<and> is_active None b' \<and> b_booking_date b' \<noteq> s
             \<longrightarrow> \<not> (s < b_booking_date b' + timedelta_minutes (b_duration_minutes b')
                    \<and> b_booking_date b' < s + timedelta_minutes 0))
       \<and> Some new_id \<notin> set (map b_id (booking_rows d))
       \<and> int32 guest_count \<and> text_fits status \<and> text_fits special_requests"
  then obtain t where t: "find (\<lambda>t. t_id t = table_id) (table_rows d) = Some t"
      "t_is_available t"
    using find_table_available [of "table_rows d" table_id] by auto
  from a have range: "plus_minutes_defined s 0" by blast
  have free: "\<forall>b'\<in>set (booking_rows d).
                b_table_id b' = table_id \<and> is_active None b'
                \<longrightarrow> end_defined b' \<and> \<not> overlap_test s (s + timedelta_minutes 0) b'"
  proof (intro ballI impI)
    fix b' assume b': "b' \<in> set (booking_rows d)" "b_table_id b' = table_id \<and> is_active None b'"
    with a have e: "end_defined b'"
      by (simp add: end_defined_def)
    have "\<not> overlap_test s (s + timedelta_minutes 0) b'"
    proof (cases "b_booking_date b' = s")
      case True
      then show ?thesis by (simp add: overlap_test_def timedelta_minutes_def)
    next
      case False
      with a b' show ?thesis by (simp add: overlap_test_def)
    qed
    with e show "end_defined b' \<and> \<not> overlap_test s (s + timedelta_minutes 0) b'" by simp
  qed
  note avail = check_table_availability_free [OF t range free]
  from a have "create_booking user_id table_id s guest_count 0 status special_requests True
           new_id created_at updated_at d
         = (Inr \<lparr>b_user_id = user_id, b_table_id = table_id, b_booking_date = s,
                 b_guest_count = guest_count, b_id = Some new_id, b_duration_minutes = 0,
                 b_status = status, b_special_requests = special_requests,
                 b_created_at = created_at, b_updated_at = updated_at\<rparr>,
            (issue (INSERT ''booking'')
               (issue (SELECT ''booking'') (issue (SELECT ''restaurant_table'') d)))
              \<lparr>booking_rows := booking_rows d @
               [\<lparr>b_user_id = user_id, b_table_id = table_id, b_booking_date = s,
                 b_guest_count = guest_count, b_id = Some new_id, b_duration_minutes = 0,
                 b_status = status, b_special_requests = special_requests,
                 b_created_at = created_at, b_updated_at = updated_at\<rparr>]\<rparr>)"
    by (intro create_booking_checked [OF avail]) (simp_all add: int32_def)
  then show "\<exists>created.
             fst (create_booking user_id table_id s guest_count 0 status special_requests
                    True new_id created_at updated_at d) = Inr created
             \<and> b_duration_minutes created = 0
             \<and> created \<in> set (booking_rows (snd (create_booking user_id table_id s guest_count
                    0 status special_requests True new_id created_at updated_at d)))"
    by simp
qed

text \<open>
  A booking of no duration for minus one guest at 19:00, the start of booking A, is
  stored.
\<close>

theorem C9_no_positivity_validation_witness:
  "\<exists>created.
     fst (create_booking 2 1 (timedelta_minutes 1140) (- 1) 0 ''pending'' [] True 12 8 8
            evening_db) = Inr created
     \<and> b_duration_minutes created = 0
     \<and> created \<in> set (booking_rows (snd (create_booking 2 1 (timedelta_minutes 1140) (- 1) 0
            ''pending'' [] True 12 8 8 evening_db)))"
proof -
  have h: "(\<exists>t\<in>set (table_rows evening_db). t_id t = 1)
       \<and> (\<forall>t\<in>set (table_rows evening_db). t_id t = 1 \<longrightarrow> t_is_available t)
       \<and> booking_a \<in> set (booking_rows evening_db) \<and> b_table_id booking_a = 1
       \<and> is_active None booking_a
       \<and> b_booking_date booking_a = timedelta_minutes 1140
       \<and> plus_minutes_defined (timedelta_minutes 1140) 0
       \<and> (\<forall>b'\<in>set (booking_rows evening_db).
             b_table_id b' = 1 \<and> is_active None b'
             \<longrightarrow> plus_minutes_defined (b_booking_date b') (b_duration_minutes b'))
       \<and> (\<forall>b'\<in>set (booking_rows evening_db).
             b_table_id b' = 1 \<and> is_active None b'
             \<and> b_booking_date b' \<noteq> timedelta_minutes 1140
             \<longrightarrow> \<not> (timedelta_minutes 1140
                      < b_booking_date b' + timedelta_minutes (b_duration_minutes b')
                    \<and> b_booking_date b' < timedelta_minutes 1140 + timedelta_minutes 0))
       \<and> Some 12 \<notin> set (map b_id (booking_rows evening_db))
       \<and> int32 (- 1) \<and> text_fits ''pending'' \<and> text_fits []"
    by (simp add: evening_db_def table_one_def booking_a_def is_active_def
        plus_minutes_defined_def timedelta_minutes_def datetime_max_def int32_def
        text_fits_def has_nul_def)
  from C9_no_positivity_validation [of 12 evening_db "- 1" 0 "''pending''" "[]" 2 1
      "timedelta_minutes 1140" 8 8 True CreateFailed booking_a] h
  show ?thesis by blast
qed

text \<open>
  Claim C6 says that schema derivation fails for a descriptor without an identifier field
  and marks every field without a supplied default NOT NULL. For the dataclass \<open>Note\<close>
  with the fields \<open>title\<close> (no default) and \<open>body\<close>, and a server that executes what
  it is sent, \<open>create_table_from_entity\<close> returns \<open>True\<close>; and the column it sends
  for \<open>title\<close> carries no NOT NULL, as for the field \<open>name\<close> of \<open>User\<close>.
\<close>

theorem C6_no_identifier_accepted:
  "create_table_from_entity (\<lambda>statement. True) note_class None False = Inr True
   \<and> ''id'' \<notin> set (map f_name (c_fields note_class))
   \<and> map column_def (c_fields note_class) = [''title VARCHAR(255)'', ''body VARCHAR(255)'']
   \<and> map column_def (c_fields user_class)
       = [''name VARCHAR(255)'', ''phone VARCHAR(255)'', ''email VARCHAR(255)'',
          ''id UUID PRIMARY KEY'', ''created_at TIMESTAMP'']"
  by (simp add: create_table_from_entity_def note_class_def user_class_def column_def_def
      python_type_to_postgres_def)

text \<open>
  Claim C6 as amended. The column of the field named \<open>id\<close>, and of no other field,
  is the primary key. \<open>create_table_from_entity\<close> does not look for an identifier
  field: for a dataclass it sends the CREATE TABLE with one column per field (after the
  DROP when asked) and returns \<open>True\<close> exactly when the server executes what it is
  sent, with or without a field named \<open>id\<close>; it raises of its own only when the class
  is no dataclass.
\<close>

theorem C6_schema_derivation:
  "(f_name field = ''id''
      \<longrightarrow> column_def field
            = ''id'' @ '' '' @ python_type_to_postgres (f_type field) @ '' PRIMARY KEY'')
   \<and> (f_name field \<noteq> ''id''
      \<longrightarrow> column_def field
              = f_name field @ '' '' @ python_type_to_postgres (f_type field)
          \<or> column_def field
              = f_name field @ '' '' @ python_type_to_postgres (f_type field) @ '' NOT NULL'')
   \<and> (c_is_dataclass entity_class
       \<and> name = (case table_name of None \<Rightarrow> lower (c_name entity_class) | Some n \<Rightarrow> n)
      \<longrightarrow> (create_table_from_entity server entity_class table_name drop_if_exists = Inr True)
          = ((drop_if_exists \<longrightarrow> server (DROP_TABLE_IF_EXISTS name))
             \<and> server (CREATE_TABLE_IF_NOT_EXISTS name
                         (map column_def (c_fields entity_class)))))
   \<and> (\<not> c_is_dataclass entity_class
      \<longrightarrow> create_table_from_entity server entity_class table_name drop_if_exists
            = Inl NotADataclass)"
  by (auto simp: column_def_def create_table_from_entity_def Let_def)

theorem C6_schema_derivation_witness:
  "column_def \<lparr>f_name = ''id'', f_type = PyUUID, f_default = MISSING,
                f_default_factory = Supplied\<rparr> = ''id UUID PRIMARY KEY''
   \<and> create_table_from_entity (\<lambda>statement. True) user_class (Some ''user'') True = Inr True
   \<and> create_table_from_entity (\<lambda>statement. True) note_class (Some ''note'') False = Inr True"
proof -
  have dc: "c_is_dataclass user_class" "c_is_dataclass note_class"
    by (simp_all add: user_class_def note_class_def)
  from C6_schema_derivation [of "\<lparr>f_name = ''id'', f_type = PyUUID, f_default = MISSING,
      f_default_factory = Supplied\<rparr>" user_class "''user''" "Some ''user''"
      "\<lambda>statement. True" True]
    C6_schema_derivation [of "\<lparr>f_name = ''id'', f_type = PyUUID, f_default = MISSING,
      f_default_factory = Supplied\<rparr>" note_class "''note''" "Some ''note''"
      "\<lambda>statement. True" False]
    dc
  show ?thesis by (simp add: python_type_to_postgres_def)
qed

end
